theory Spec2Isabelle
  imports Complex_Main
begin

section \<open>Numbers: Python floats, rounding and the millimetre-to-pixel conversion\<close>

text \<open>
  The three programs (\<^verbatim>\<open>Box-Joint.py\<close>, \<^verbatim>\<open>Dovetail-Joint.py\<close> and
  \<^verbatim>\<open>Joint-Template-Generator.py\<close>) compute with Python \<^verbatim>\<open>float\<close> and unbounded
  \<^verbatim>\<open>int\<close>. Integers are modelled by \<^typ>\<open>int\<close>. Floats are modelled by \<^typ>\<open>real\<close>:
  every operation is exact, so the model leaves the rounding error of IEEE doubles out.
  The built-in \<^verbatim>\<open>round\<close> of Python 3 rounds a half to the even neighbour.
\<close>

definition py_round :: "real \<Rightarrow> int" where
  "py_round v =
     (let f = \<lfloor>v\<rfloor>; d = v - of_int f in
      if d < 1 / 2 then f
      else if 1 / 2 < d then f + 1
      else if even f then f else f + 1)"

text \<open>\<^verbatim>\<open>mm_to_px = dpi / 25.4\<close>\<close>

definition mm_to_px :: "int \<Rightarrow> real" where
  "mm_to_px dpi = of_int dpi / (254 / 10)"

text \<open>\<^verbatim>\<open>int(round(v_mm * mm_to_px))\<close>, the conversion used for every pixel length.\<close>

definition to_px :: "real \<Rightarrow> int \<Rightarrow> int" where
  "to_px v_mm dpi = py_round (v_mm * mm_to_px dpi)"

section \<open>Box joint: the finger loop\<close>

text \<open>
  One iteration of the loop \<^verbatim>\<open>while x < end_x\<close> handles one span of the board:
  it starts at \<open>x\<close>, is \<open>seg_width\<close> wide and is a solid finger when \<open>draw_finger\<close> holds.
\<close>

record segment =
  seg_x :: int
  seg_width :: int
  solid :: bool

text \<open>
  \<^verbatim>\<open>
  while x < end_x:
      seg_width = min(finger_width_px, end_x - x)
      if draw_finger and seg_width > 0:
          draw.rectangle([x, top_y, x + seg_width, bottom_y], fill="black", outline=None)
      x += seg_width
      draw_finger = not draw_finger
  \<close>
  The loop has no bound of its own, so it is a partial function: \<open>None\<close> is the loop that
  never leaves. The result lists the spans of all iterations in order; the rectangles
  that are drawn are the solid spans of positive width (\<open>drawn_rectangles\<close>).
\<close>

partial_function (option) finger_loop ::
  "int \<Rightarrow> int \<Rightarrow> int \<Rightarrow> bool \<Rightarrow> segment list option" where
  "finger_loop finger_width_px end_x x draw_finger =
     (if x < end_x then
        (let seg_width = min finger_width_px (end_x - x) in
         Option.bind (finger_loop finger_width_px end_x (x + seg_width) (\<not> draw_finger))
           (\<lambda>rest. Some (\<lparr>seg_x = x, seg_width = seg_width, solid = draw_finger\<rparr> # rest)))
      else Some [])"

type_synonym rect = "int \<times> int \<times> int \<times> int"

definition drawn_rectangles :: "int \<Rightarrow> int \<Rightarrow> segment list \<Rightarrow> rect list" where
  "drawn_rectangles top_y bottom_y segs =
     map (\<lambda>s. (seg_x s, top_y, seg_x s + seg_width s, bottom_y))
       (filter (\<lambda>s. solid s \<and> 0 < seg_width s) segs)"

text \<open>
  The spans of one request, from the board width, the finger width and the resolution:
  lines 35 to 41 and 69 to 87 of \<^verbatim>\<open>Box-Joint.py\<close>, lines 21 to 25 and 47 to 67 of
  \<^verbatim>\<open>generate_box_image\<close>.
\<close>

definition box_segments :: "real \<Rightarrow> real \<Rightarrow> int \<Rightarrow> bool \<Rightarrow> segment list option" where
  "box_segments board_width_mm finger_width_mm dpi start_with_finger =
     (let margin_px = to_px 5 dpi;
          board_width_px = to_px board_width_mm dpi;
          finger_width_px = to_px finger_width_mm dpi;
          left_x = margin_px;
          right_x = left_x + board_width_px
      in finger_loop finger_width_px right_x left_x start_with_finger)"

section \<open>Strings: the built-in conversions that read the form\<close>

text \<open>
  The entry fields hold text. \<^verbatim>\<open>str.strip\<close>, \<^verbatim>\<open>str.split\<close>, \<^verbatim>\<open>float\<close> and
  \<^verbatim>\<open>int\<close> are built-ins of Python, not code of the programs; they are modelled on
  ASCII decimal literals: an optional sign, digits with an optional fraction, and an
  optional exponent. The forms \<^verbatim>\<open>inf\<close>, \<^verbatim>\<open>nan\<close> and digits grouped by underscores
  have no counterpart in \<^typ>\<open>real\<close> or are left out, and count as not numeric here.
\<close>

definition is_space :: "char \<Rightarrow> bool" where
  "is_space c = (c = CHR '' '' \<or> c = CHR 0x09 \<or> c = CHR 0x0A \<or> c = CHR 0x0B
     \<or> c = CHR 0x0C \<or> c = CHR 0x0D \<or> c = CHR 0x1C \<or> c = CHR 0x1D \<or> c = CHR 0x1E
     \<or> c = CHR 0x1F)"

definition strip :: "string \<Rightarrow> string" where
  "strip s = rev (dropWhile is_space (rev (dropWhile is_space s)))"

definition digit_val :: "char \<Rightarrow> nat option" where
  "digit_val =
     map_of [(CHR ''0'', 0), (CHR ''1'', 1), (CHR ''2'', 2), (CHR ''3'', 3), (CHR ''4'', 4),
             (CHR ''5'', 5), (CHR ''6'', 6), (CHR ''7'', 7), (CHR ''8'', 8), (CHR ''9'', 9)]"

definition is_digit :: "char \<Rightarrow> bool" where
  "is_digit c = (digit_val c \<noteq> None)"

fun digits_val :: "nat \<Rightarrow> string \<Rightarrow> nat" where
  "digits_val acc [] = acc"
| "digits_val acc (c # cs) =
     digits_val (case digit_val c of Some d \<Rightarrow> 10 * acc + d | None \<Rightarrow> acc) cs"

definition split_sign :: "string \<Rightarrow> bool \<times> string" where
  "split_sign s =
     (case s of
        [] \<Rightarrow> (False, [])
      | c # r \<Rightarrow> if c = CHR ''-'' then (True, r)
                 else if c = CHR ''+'' then (False, r) else (False, s))"

text \<open>\<^verbatim>\<open>int(text)\<close>: \<open>None\<close> stands for the \<^verbatim>\<open>ValueError\<close> of a malformed literal.\<close>

definition py_int :: "string \<Rightarrow> int option" where
  "py_int s =
     (let (neg, ds) = split_sign (strip s) in
      if ds \<noteq> [] \<and> list_all is_digit ds
      then Some (if neg then - int (digits_val 0 ds) else int (digits_val 0 ds))
      else None)"

text \<open>\<^verbatim>\<open>float(text)\<close>, with the value of the literal as an exact real.\<close>

definition py_float :: "string \<Rightarrow> real option" where
  "py_float s =
     (let (neg, u) = split_sign (strip s);
          ip = takeWhile is_digit u;
          r1 = dropWhile is_digit u;
          (fp, r2) = (case r1 of
                        [] \<Rightarrow> ([], [])
                      | c # r \<Rightarrow> if c = CHR ''.''
                                 then (takeWhile is_digit r, dropWhile is_digit r)
                                 else ([], r1));
          mant = real (digits_val 0 ip) + real (digits_val 0 fp) / 10 ^ length fp;
          val = (if neg then - mant else mant)
      in if ip = [] \<and> fp = [] then None
         else (case r2 of
                 [] \<Rightarrow> Some val
               | c # r \<Rightarrow>
                   if c = CHR ''e'' \<or> c = CHR ''E'' then
                     (let (eneg, ed) = split_sign r in
                      if ed \<noteq> [] \<and> list_all is_digit ed
                      then Some (if eneg then val / 10 ^ digits_val 0 ed
                                 else val * 10 ^ digits_val 0 ed)
                      else None)
                   else None))"

text \<open>\<^verbatim>\<open>text.split(sep)\<close> for a separator of one character.\<close>

fun split_on :: "char \<Rightarrow> string \<Rightarrow> string list" where
  "split_on sep [] = [[]]"
| "split_on sep (c # cs) =
     (if c = sep then [] # split_on sep cs
      else (case split_on sep cs of
              [] \<Rightarrow> [[c]]
            | p # ps \<Rightarrow> (c # p) # ps))"

section \<open>The ratio parser\<close>

datatype error =
    ValueError string
  | ZeroDivisionError
  | IndexError
  | RuntimeError string

text \<open>
  \<^verbatim>\<open>parse_ratio\<close> of \<^verbatim>\<open>Dovetail-Joint.py\<close> (lines 9 to 30). In the colon form every
  exception of the \<^verbatim>\<open>try\<close> block, the one raised for a zero left side included, is
  replaced by the \<^verbatim>\<open>ValueError\<close> of the format message.
\<close>

definition dovetail_parse_ratio :: "string \<Rightarrow> error + real" where
  "dovetail_parse_ratio text0 =
     (let text = strip text0 in
      if CHR '':'' \<in> set text then
        (case split_on CHR '':'' text of
           l # r # _ \<Rightarrow>
             (case py_float l of
                None \<Rightarrow> Inl (ValueError ''Invalid ratio format. Use e.g. 6 or 1:6'')
              | Some left \<Rightarrow>
                  (case py_float r of
                     None \<Rightarrow> Inl (ValueError ''Invalid ratio format. Use e.g. 6 or 1:6'')
                   | Some right \<Rightarrow>
                       if left = 0
                       then Inl (ValueError ''Invalid ratio format. Use e.g. 6 or 1:6'')
                       else Inr (right / left)))
         | _ \<Rightarrow> Inl (ValueError ''Invalid ratio format. Use e.g. 6 or 1:6''))
      else
        (case py_float text of
           None \<Rightarrow> Inl (ValueError ''Invalid ratio value. Use e.g. 6 or 1:6'')
         | Some v \<Rightarrow> Inr v))"

text \<open>
  \<^verbatim>\<open>parse_ratio\<close> of \<^verbatim>\<open>Joint-Template-Generator.py\<close> (lines 87 to 102): the same
  parser without the \<^verbatim>\<open>try\<close> blocks, so the \<^verbatim>\<open>ValueError\<close> of \<^verbatim>\<open>float\<close> itself
  leaves the function (its message is abbreviated here: the original quotes the text).
  \<^verbatim>\<open>parts[1]\<close> would raise \<^verbatim>\<open>IndexError\<close> on a list of one part.
\<close>

definition parse_ratio :: "string \<Rightarrow> error + real" where
  "parse_ratio text0 =
     (let text = strip text0 in
      if CHR '':'' \<in> set text then
        (case split_on CHR '':'' text of
           l # r # _ \<Rightarrow>
             (case py_float l of
                None \<Rightarrow> Inl (ValueError ''could not convert string to float'')
              | Some left \<Rightarrow>
                  (case py_float r of
                     None \<Rightarrow> Inl (ValueError ''could not convert string to float'')
                   | Some right \<Rightarrow>
                       if left = 0
                       then Inl (ValueError ''Ratio left side cannot be zero.'')
                       else Inr (right / left)))
         | _ \<Rightarrow> Inl IndexError)
      else
        (case py_float text of
           None \<Rightarrow> Inl (ValueError ''could not convert string to float'')
         | Some v \<Rightarrow> Inr v))"

section \<open>The ruler under the board\<close>

text \<open>
  \<^verbatim>\<open>
  tick_step_mm = 10
  mm_val = 0
  while mm_val <= ruler_length_mm + 0.01:
      px = left_x + int(round(mm_val * mm_to_px))
      draw.line([px, ruler_top_y, px, ruler_top_y + 6], fill="black", width=1)
      label = f"{int(mm_val)} mm"
      draw.text((px - 10, ruler_top_y + 8), label, fill="black", font=font_small)
      mm_val += tick_step_mm
  \<close>
  \<open>mm_val\<close> is a Python \<^verbatim>\<open>int\<close>. Each tick is recorded as the pair of its pixel
  position and the number of its label.
\<close>

function ruler_loop :: "int \<Rightarrow> int \<Rightarrow> real \<Rightarrow> int \<Rightarrow> (int \<times> int) list" where
  "ruler_loop left_x dpi ruler_length_mm mm_val =
     (if of_int mm_val \<le> ruler_length_mm + 1 / 100
      then (left_x + to_px (of_int mm_val) dpi, mm_val)
             # ruler_loop left_x dpi ruler_length_mm (mm_val + 10)
      else [])"
  by pat_completeness auto
termination
proof (relation "measure (\<lambda>(left_x, dpi, len, mm_val). nat (\<lfloor>len + 1 / 100\<rfloor> + 1 - mm_val))")
  show "wf (measure (\<lambda>(left_x, dpi, len, mm_val). nat (\<lfloor>len + 1 / 100\<rfloor> + 1 - mm_val)))"
    by simp
next
  fix left_x dpi :: int and ruler_length_mm :: real and mm_val :: int
  assume "real_of_int mm_val \<le> ruler_length_mm + 1 / 100"
  then have "mm_val \<le> \<lfloor>ruler_length_mm + 1 / 100\<rfloor>"
    by (simp add: le_floor_iff)
  then show "((left_x, dpi, ruler_length_mm, mm_val + 10), (left_x, dpi, ruler_length_mm, mm_val))
      \<in> measure (\<lambda>(left_x, dpi, len, mm_val). nat (\<lfloor>len + 1 / 100\<rfloor> + 1 - mm_val))"
    by simp
qed

text \<open>
  The ruler block that closes each of the three drawing routines (\<^verbatim>\<open>Box-Joint.py\<close>
  lines 89 to 113, \<^verbatim>\<open>generate_box_image\<close> lines 69 to 82): the base line, as the
  end points given to \<^verbatim>\<open>draw.line\<close>, and the ticks.
\<close>

definition draw_ruler :: "int \<Rightarrow> int \<Rightarrow> real \<Rightarrow> int \<Rightarrow> rect \<times> (int \<times> int) list" where
  "draw_ruler left_x bottom_y board_width_mm dpi =
     (let ruler_top_y = bottom_y + 10;
          ruler_length_mm = min board_width_mm 200;
          ruler_length_px = to_px ruler_length_mm dpi
      in ((left_x, ruler_top_y, left_x + ruler_length_px, ruler_top_y),
          ruler_loop left_x dpi ruler_length_mm 0))"

section \<open>Raster images\<close>

type_synonym point = "real \<times> real"
type_synonym polygon = "point list"

text \<open>
  What is drawn on the canvas of one template. The title and the information line, the
  fonts and the colours are left out.
\<close>

record image =
  img_width :: int
  img_height :: int
  outline :: rect
  rectangles :: "rect list"
  polygons :: "polygon list"
  ruler_line :: rect
  ruler_ticks :: "(int \<times> int) list"

text \<open>\<^verbatim>\<open>generate_box_image\<close> (\<^verbatim>\<open>Joint-Template-Generator.py\<close>, lines 20 to 84); the drawing
  part of \<^verbatim>\<open>Box-Joint.py\<close> (lines 34 to 113) is the same code.\<close>

definition generate_box_image :: "real \<Rightarrow> real \<Rightarrow> real \<Rightarrow> int \<Rightarrow> bool \<Rightarrow> image option" where
  "generate_box_image board_width_mm board_height_mm finger_width_mm dpi start_with_finger =
     (let margin_px = to_px 5 dpi;
          board_width_px = to_px board_width_mm dpi;
          board_height_px = to_px board_height_mm dpi;
          origin_y = margin_px + 50;
          left_x = margin_px;
          top_y = origin_y;
          right_x = left_x + board_width_px;
          bottom_y = top_y + board_height_px;
          ruler = draw_ruler left_x bottom_y board_width_mm dpi
      in Option.bind (box_segments board_width_mm finger_width_mm dpi start_with_finger)
           (\<lambda>segs. Some
              \<lparr>img_width = board_width_px + 2 * margin_px,
               img_height = board_height_px + 2 * margin_px + 80,
               outline = (left_x, top_y, right_x, bottom_y),
               rectangles = drawn_rectangles top_y bottom_y segs,
               polygons = [],
               ruler_line = fst ruler,
               ruler_ticks = snd ruler\<rparr>))"

section \<open>Dovetail joint: the tails\<close>

text \<open>
  The body of the loop \<^verbatim>\<open>for i in range(num_tails)\<close>, which the three dovetail
  routines share word for word:
  \<^verbatim>\<open>
  tail_left_top_x = tail_start_x + i * (tail_top_width_px + pin_width_px)
  tail_right_top_x = tail_left_top_x + tail_top_width_px
  tail_left_bottom_x = tail_left_top_x + offset_px
  tail_right_bottom_x = tail_right_top_x - offset_px
  if tail_right_bottom_x <= tail_left_bottom_x:
      mid = (tail_left_bottom_x + tail_right_bottom_x) / 2.0
      tail_left_bottom_x = mid
      tail_right_bottom_x = mid
  polygon = [(tail_left_top_x, top_y), (tail_right_top_x, top_y),
             (tail_right_bottom_x, bottom_y), (tail_left_bottom_x, bottom_y)]
  \<close>
\<close>

definition tail_polygon :: "real \<Rightarrow> real \<Rightarrow> real \<Rightarrow> real \<Rightarrow> real \<Rightarrow> real \<Rightarrow> nat \<Rightarrow> polygon" where
  "tail_polygon tail_start_x tail_top_width pin_width offset top_y bottom_y i =
     (let tail_left_top_x = tail_start_x + real i * (tail_top_width + pin_width);
          tail_right_top_x = tail_left_top_x + tail_top_width;
          tail_left_bottom_x = tail_left_top_x + offset;
          tail_right_bottom_x = tail_right_top_x - offset;
          mid = (tail_left_bottom_x + tail_right_bottom_x) / 2;
          inverted = (tail_right_bottom_x \<le> tail_left_bottom_x)
      in [(tail_left_top_x, top_y),
          (tail_right_top_x, top_y),
          (if inverted then mid else tail_right_bottom_x, bottom_y),
          (if inverted then mid else tail_left_bottom_x, bottom_y)])"

text \<open>
  The layout around that loop: the unit, the widths of a tail and of a pin, and the
  offset of the slope. \<open>width\<close> and \<open>height\<close> are pixels in the raster routines and
  millimetres in \<^verbatim>\<open>save_dovetail_svg\<close>. Both divisions raise
  \<^verbatim>\<open>ZeroDivisionError\<close> on a zero divisor.
\<close>

definition dovetail_tails ::
  "real \<Rightarrow> real \<Rightarrow> real \<Rightarrow> real \<Rightarrow> real \<Rightarrow> int \<Rightarrow> real \<Rightarrow> error + polygon list" where
  "dovetail_tails left_x top_y bottom_y width height num_tails ratio_val =
     (let pin_fraction = 1 / 2;
          tail_units = 1;
          pin_units = pin_fraction;
          total_units = of_int num_tails * tail_units + (of_int num_tails + 1) * pin_units
      in if total_units = 0 then Inl ZeroDivisionError
         else
          (let unit = width / total_units;
               tail_top_width = tail_units * unit;
               pin_width = pin_units * unit
           in if ratio_val = 0 then Inl ZeroDivisionError
              else
               (let offset = height / ratio_val;
                    tail_start_x = left_x + pin_width
                in Inr (map (tail_polygon tail_start_x tail_top_width pin_width offset
                               top_y bottom_y)
                          [0 ..< nat num_tails]))))"

text \<open>\<^verbatim>\<open>generate_dovetail_image\<close> (\<^verbatim>\<open>Joint-Template-Generator.py\<close>, lines 105 to 190); the
  drawing part of \<^verbatim>\<open>Dovetail-Joint.py\<close> (lines 58 to 160) is the same code.\<close>

definition generate_dovetail_image :: "real \<Rightarrow> real \<Rightarrow> int \<Rightarrow> real \<Rightarrow> int \<Rightarrow> error + image" where
  "generate_dovetail_image board_width_mm board_height_mm num_tails ratio_val dpi =
     (let margin_px = to_px 5 dpi;
          board_width_px = to_px board_width_mm dpi;
          board_height_px = to_px board_height_mm dpi;
          origin_y = margin_px + 50;
          left_x = margin_px;
          top_y = origin_y;
          right_x = left_x + board_width_px;
          bottom_y = top_y + board_height_px;
          ruler = draw_ruler left_x bottom_y board_width_mm dpi
      in case dovetail_tails (of_int left_x) (of_int top_y) (of_int bottom_y)
                (of_int board_width_px) (of_int board_height_px) num_tails ratio_val of
           Inl e \<Rightarrow> Inl e
         | Inr tails \<Rightarrow> Inr
              \<lparr>img_width = board_width_px + 2 * margin_px,
               img_height = board_height_px + 2 * margin_px + 100,
               outline = (left_x, top_y, right_x, bottom_y),
               rectangles = [],
               polygons = tails,
               ruler_line = fst ruler,
               ruler_ticks = snd ruler\<rparr>)"

section \<open>Vector export\<close>

datatype svg_shape =
    SvgRect real real real real
  | SvgPolygon polygon

text \<open>An SVG document in millimetres: its size and its shapes, the outline first.\<close>

record svg_doc =
  svg_width :: real
  svg_height :: real
  svg_shapes :: "svg_shape list"

text \<open>
  The loop of \<^verbatim>\<open>save_box_svg\<close> (lines 210 to 219), in millimetres:
  \<^verbatim>\<open>
  while x < end_x - 1e-6:
      seg = min(finger_width_mm, end_x - x)
      if draw_finger and seg > 0:
          lines.append(f'<rect x="{x}" y="0" width="{seg}" height="{height}" />')
      x += seg
      draw_finger = not draw_finger
  \<close>
\<close>

partial_function (option) svg_finger_loop ::
  "real \<Rightarrow> real \<Rightarrow> real \<Rightarrow> real \<Rightarrow> bool \<Rightarrow> svg_shape list option" where
  "svg_finger_loop finger_width_mm end_x height x draw_finger =
     (if x < end_x - 1 / 1000000 then
        (let seg = min finger_width_mm (end_x - x) in
         Option.bind (svg_finger_loop finger_width_mm end_x height (x + seg) (\<not> draw_finger))
           (\<lambda>rest. Some ((if draw_finger \<and> 0 < seg then [SvgRect x 0 seg height] else [])
                          @ rest)))
      else Some [])"

definition save_box_svg :: "real \<Rightarrow> real \<Rightarrow> real \<Rightarrow> bool \<Rightarrow> svg_doc option" where
  "save_box_svg board_width_mm board_height_mm finger_width_mm start_with_finger =
     (let width = board_width_mm; height = board_height_mm in
      Option.bind (svg_finger_loop finger_width_mm width height 0 start_with_finger)
        (\<lambda>fingers. Some \<lparr>svg_width = width, svg_height = height,
                           svg_shapes = SvgRect 0 0 width height # fingers\<rparr>))"

text \<open>\<^verbatim>\<open>save_dovetail_svg\<close> (lines 227 to 278): the layout of the tails in millimetres,
  from the left edge \<open>0\<close>, between \<open>y = 0\<close> and \<open>y = height\<close>.\<close>

definition save_dovetail_svg :: "real \<Rightarrow> real \<Rightarrow> int \<Rightarrow> real \<Rightarrow> error + svg_doc" where
  "save_dovetail_svg board_width_mm board_height_mm num_tails ratio_val =
     (let width = board_width_mm; height = board_height_mm in
      case dovetail_tails 0 0 height width height num_tails ratio_val of
        Inl e \<Rightarrow> Inl e
      | Inr tails \<Rightarrow> Inr \<lparr>svg_width = width, svg_height = height,
                           svg_shapes = SvgRect 0 0 width height # map SvgPolygon tails\<rparr>)"

section \<open>The forms and the three \<^verbatim>\<open>Generate\<close> actions\<close>

text \<open>
  The widgets that the actions read, as one record: the text of each entry, the state of
  each check box and radio button, and \<open>save_as\<close>, the path that the file dialog
  returns (empty when the user cancels). \<open>entry_board_height\<close> is the height field of
  \<^verbatim>\<open>Box-Joint.py\<close> and \<^verbatim>\<open>Dovetail-Joint.py\<close>, \<open>entry_height\<close> that of
  \<^verbatim>\<open>Joint-Template-Generator.py\<close>.
\<close>

record form =
  entry_board_width :: string
  entry_board_height :: string
  entry_height :: string
  entry_dpi :: string
  entry_finger_width :: string
  var_start_with_finger :: bool
  entry_tails :: string
  entry_ratio :: string
  joint_type_var :: string
  var_out_png :: bool
  var_out_svg :: bool
  var_out_pdf :: bool
  var_out_docx :: bool
  save_as :: string

text \<open>What the user sees at the end of an action, and the files written by it.\<close>

datatype dialog =
    ShowError string string
  | ShowInfo string string
  | NoDialog

datatype written =
    PngFile string image
  | PdfFile string image int
  | SvgFile string svg_doc
  | DocxFile string string real

type_synonym result = "dialog \<times> written list"

definition newline :: string where
  "newline = [CHR 0x0A]"

text \<open>\<^verbatim>\<open>str(e)\<close> of an exception.\<close>

fun error_text :: "error \<Rightarrow> string" where
  "error_text (ValueError m) = m"
| "error_text ZeroDivisionError = ''float division by zero''"
| "error_text IndexError = ''list index out of range''"
| "error_text (RuntimeError m) = m"

text \<open>
  The handlers that close \<^verbatim>\<open>generate_template\<close> of \<^verbatim>\<open>Dovetail-Joint.py\<close> and
  \<^verbatim>\<open>generate_templates\<close>:
  \<^verbatim>\<open>
  except ValueError as ve:
      messagebox.showerror("Invalid input", str(ve))
  except Exception as e:
      messagebox.showerror("Error", f"An error occurred:\n{e}")
  \<close>
\<close>

fun report :: "error \<Rightarrow> dialog" where
  "report (ValueError m) = ShowError ''Invalid input'' m"
| "report e = ShowError ''Error'' (''An error occurred:'' @ newline @ error_text e)"

text \<open>\<^verbatim>\<open>generate_template\<close> of \<^verbatim>\<open>Box-Joint.py\<close>. Its handler answers every
  \<^verbatim>\<open>ValueError\<close> with one fixed message. \<open>None\<close> is an action that never returns.\<close>

definition box_generate_template :: "form \<Rightarrow> result option" where
  "box_generate_template f =
     (case py_float (entry_board_width f) of
        None \<Rightarrow> Some (ShowError ''Invalid input'' ''Please enter valid numbers.'', [])
      | Some board_width_mm \<Rightarrow>
     (case py_float (entry_finger_width f) of
        None \<Rightarrow> Some (ShowError ''Invalid input'' ''Please enter valid numbers.'', [])
      | Some finger_width_mm \<Rightarrow>
     (case py_float (entry_board_height f) of
        None \<Rightarrow> Some (ShowError ''Invalid input'' ''Please enter valid numbers.'', [])
      | Some board_height_mm \<Rightarrow>
     (case py_int (entry_dpi f) of
        None \<Rightarrow> Some (ShowError ''Invalid input'' ''Please enter valid numbers.'', [])
      | Some dpi \<Rightarrow>
         if board_width_mm \<le> 0 \<or> finger_width_mm \<le> 0 \<or> board_height_mm \<le> 0 \<or> dpi \<le> 0
         then Some (ShowError ''Invalid input''
                      ''All numeric values must be greater than zero.'', [])
         else if finger_width_mm > board_width_mm
         then Some (ShowError ''Invalid input''
                      ''Finger width cannot be greater than board width.'', [])
         else if save_as f = [] then Some (NoDialog, [])
         else Option.bind
                (generate_box_image board_width_mm board_height_mm finger_width_mm dpi
                   (var_start_with_finger f))
                (\<lambda>img. Some (ShowInfo ''Done'' (''Template saved to:'' @ newline @ save_as f),
                              [PngFile (save_as f) img]))))))"

text \<open>\<^verbatim>\<open>generate_template\<close> of \<^verbatim>\<open>Dovetail-Joint.py\<close> (lines 33 to 175).\<close>

definition dovetail_generate_template :: "form \<Rightarrow> result" where
  "dovetail_generate_template f =
     (case py_float (entry_board_width f) of
        None \<Rightarrow> (report (ValueError ''could not convert string to float''), [])
      | Some board_width_mm \<Rightarrow>
     (case py_float (entry_board_height f) of
        None \<Rightarrow> (report (ValueError ''could not convert string to float''), [])
      | Some board_height_mm \<Rightarrow>
     (case py_int (entry_tails f) of
        None \<Rightarrow> (report (ValueError ''invalid literal for int() with base 10''), [])
      | Some num_tails \<Rightarrow>
     (case py_int (entry_dpi f) of
        None \<Rightarrow> (report (ValueError ''invalid literal for int() with base 10''), [])
      | Some dpi \<Rightarrow>
     (case dovetail_parse_ratio (entry_ratio f) of
        Inl e \<Rightarrow> (report e, [])
      | Inr ratio_val \<Rightarrow>
         if board_width_mm \<le> 0 \<or> board_height_mm \<le> 0 \<or> num_tails \<le> 0 \<or> dpi \<le> 0
         then (ShowError ''Invalid input''
                 ''All numeric values must be greater than zero.'', [])
         else if num_tails < 1
         then (ShowError ''Invalid input'' ''Number of tails must be at least 1.'', [])
         else if save_as f = [] then (NoDialog, [])
         else (case generate_dovetail_image board_width_mm board_height_mm num_tails
                      ratio_val dpi of
                 Inl e \<Rightarrow> (report e, [])
               | Inr img \<Rightarrow>
                   (ShowInfo ''Done'' (''Template saved to:'' @ newline @ save_as f),
                    [PngFile (save_as f) img])))))))"

section \<open>The combined generator\<close>

text \<open>
  \<^verbatim>\<open>os.path.splitext\<close> of the standard library, for paths separated by \<^verbatim>\<open>/\<close>: the
  extension starts at the last dot of the last component, unless only dots precede it
  there.
\<close>

definition splitext :: "string \<Rightarrow> string \<times> string" where
  "splitext p =
     (let name = rev (takeWhile (\<lambda>c. c \<noteq> CHR ''/'') (rev p));
          dir = take (length p - length name) p;
          ext = rev (takeWhile (\<lambda>c. c \<noteq> CHR ''.'') (rev name));
          stem = take (length name - length ext - 1) name
      in if CHR ''.'' \<in> set name \<and> list_ex (\<lambda>c. c \<noteq> CHR ''.'') stem
         then (dir @ stem, CHR ''.'' # ext)
         else (p, []))"

text \<open>\<^verbatim>\<open>"\n".join(messages)\<close>\<close>

fun join_lines :: "string list \<Rightarrow> string" where
  "join_lines [] = []"
| "join_lines [m] = m"
| "join_lines (m # n # ms) = m @ newline @ join_lines (n # ms)"

text \<open>
  The local variables that \<^verbatim>\<open>generate_templates\<close> keeps for the joint it has
  validated: \<open>finger_width_mm\<close> and \<open>start_with_finger\<close> for a box joint,
  \<open>num_tails\<close> and \<open>ratio_val\<close> for a dovetail.
\<close>

datatype joint =
    BoxJoint real bool
  | DovetailJoint int real

text \<open>
  Lines 349 to 395 of \<^verbatim>\<open>generate_templates\<close>: the files written once the image
  exists and the dialog has returned a path. \<open>docx_available\<close> says whether the import of
  \<^verbatim>\<open>python-docx\<close> succeeded (\<^verbatim>\<open>Document\<close> and \<^verbatim>\<open>Mm\<close> are not \<^verbatim>\<open>None\<close>). An exception
  ends the action; the files written before it stay. Failures of the file system are
  not modelled.
\<close>

definition write_outputs ::
  "bool \<Rightarrow> form \<Rightarrow> joint \<Rightarrow> real \<Rightarrow> real \<Rightarrow> int \<Rightarrow> image \<Rightarrow> result option" where
  "write_outputs docx_available f jt board_width_mm board_height_mm dpi img =
     (let file_path = save_as f;
          base = fst (splitext file_path);
          png_path = base @ ''.png'';
          pdf_path = base @ ''.pdf'';
          svg_path = base @ ''.svg'';
          docx_path = base @ ''.docx'';
          files1 = [PngFile png_path img];
          messages1 = (if var_out_png f then [''PNG: '' @ png_path] else []);
          files2 = files1 @ (if var_out_pdf f then [PdfFile pdf_path img dpi] else []);
          messages2 = messages1 @ (if var_out_pdf f then [''PDF: '' @ pdf_path] else [])
      in Option.bind
           (if var_out_svg f then
              (case jt of
                 BoxJoint finger_width_mm start_with_finger \<Rightarrow>
                   Option.bind
                     (save_box_svg board_width_mm board_height_mm finger_width_mm
                        start_with_finger)
                     (\<lambda>doc. Some (Inr [SvgFile svg_path doc]))
               | DovetailJoint num_tails ratio_val \<Rightarrow>
                   (case save_dovetail_svg board_width_mm board_height_mm num_tails
                           ratio_val of
                      Inl e \<Rightarrow> Some (Inl e)
                    | Inr doc \<Rightarrow> Some (Inr [SvgFile svg_path doc])))
            else Some (Inr []))
           (\<lambda>svg.
              case svg of
                Inl e \<Rightarrow> Some (report e, files2)
              | Inr svg_files \<Rightarrow>
                 (let files3 = files2 @ svg_files;
                      messages3 = messages2 @
                        (if var_out_svg f then [''SVG (LightBurn): '' @ svg_path] else [])
                  in if var_out_docx f then
                       (if \<not> docx_available
                        then Some (report (RuntimeError
                               ''python-docx is not installed. Install with: pip install python-docx''),
                               files3)
                        else Some (ShowInfo ''Templates generated''
                                     (''Generated:'' @ newline @
                                        join_lines (messages3 @ [''Word (DOCX): '' @ docx_path])),
                                   files3 @ [DocxFile docx_path png_path (board_width_mm + 10)]))
                     else Some (ShowInfo ''Templates generated''
                                  (''Generated:'' @ newline @ join_lines messages3),
                                files3))))"

text \<open>\<^verbatim>\<open>generate_templates\<close> (lines 299 to 400). \<open>None\<close> is an action that never
  returns.\<close>

definition generate_templates :: "bool \<Rightarrow> form \<Rightarrow> result option" where
  "generate_templates docx_available f =
     (case py_float (entry_board_width f) of
        None \<Rightarrow> Some (report (ValueError ''could not convert string to float''), [])
      | Some board_width_mm \<Rightarrow>
     (case py_float (entry_height f) of
        None \<Rightarrow> Some (report (ValueError ''could not convert string to float''), [])
      | Some board_height_mm \<Rightarrow>
     (case py_int (entry_dpi f) of
        None \<Rightarrow> Some (report (ValueError ''invalid literal for int() with base 10''), [])
      | Some dpi \<Rightarrow>
         if board_width_mm \<le> 0 \<or> board_height_mm \<le> 0 \<or> dpi \<le> 0
         then Some (ShowError ''Invalid input'' ''Board dimensions and DPI must be > 0.'', [])
         else if \<not> (var_out_png f \<or> var_out_svg f \<or> var_out_pdf f \<or> var_out_docx f)
         then Some (ShowError ''No output format'' ''Select at least one output format.'', [])
         else if joint_type_var f = ''box'' then
           (case py_float (entry_finger_width f) of
              None \<Rightarrow> Some (report (ValueError ''could not convert string to float''), [])
            | Some finger_width_mm \<Rightarrow>
               if finger_width_mm \<le> 0 \<or> finger_width_mm > board_width_mm
               then Some (ShowError ''Invalid input''
                            ''Finger width must be > 0 and <= board width.'', [])
               else Option.bind
                      (generate_box_image board_width_mm board_height_mm finger_width_mm dpi
                         (var_start_with_finger f))
                      (\<lambda>img. if save_as f = [] then Some (NoDialog, [])
                             else write_outputs docx_available f
                                    (BoxJoint finger_width_mm (var_start_with_finger f))
                                    board_width_mm board_height_mm dpi img))
         else
           (case py_int (entry_tails f) of
              None \<Rightarrow> Some (report (ValueError ''invalid literal for int() with base 10''), [])
            | Some num_tails \<Rightarrow>
               if num_tails < 1
               then Some (ShowError ''Invalid input'' ''Number of tails must be at least 1.'', [])
               else
                (case parse_ratio (entry_ratio f) of
                   Inl e \<Rightarrow> Some (report e, [])
                 | Inr ratio_val \<Rightarrow>
                    if ratio_val \<le> 0
                    then Some (ShowError ''Invalid input'' ''Dovetail ratio must be > 0.'', [])
                    else
                     (case generate_dovetail_image board_width_mm board_height_mm num_tails
                             ratio_val dpi of
                        Inl e \<Rightarrow> Some (report e, [])
                      | Inr img \<Rightarrow>
                         if save_as f = [] then Some (NoDialog, [])
                         else write_outputs docx_available f
                                (DovetailJoint num_tails ratio_val)
                                board_width_mm board_height_mm dpi img))))))"

section \<open>Example requests\<close>

text \<open>The form as the programs fill it in at start, saved as \<^verbatim>\<open>template.png\<close>.\<close>

definition default_form :: form where
  "default_form =
     \<lparr>entry_board_width = ''100'', entry_board_height = ''40'', entry_height = ''40'',
      entry_dpi = ''300'', entry_finger_width = ''10'', var_start_with_finger = True,
      entry_tails = ''3'', entry_ratio = ''6'', joint_type_var = ''box'',
      var_out_png = True, var_out_svg = True, var_out_pdf = False, var_out_docx = False,
      save_as = ''template.png''\<rparr>"

text \<open>A finger of a hundredth of a millimetre at 72 dots per inch.\<close>

definition thin_finger_form :: form where
  "thin_finger_form = default_form\<lparr>entry_finger_width := ''0.01'', entry_dpi := ''72''\<rparr>"

text \<open>The default dovetail request with the ratio \<^verbatim>\<open>-6\<close>, and with the ratio \<^verbatim>\<open>0\<close>.\<close>

definition negative_ratio_form :: form where
  "negative_ratio_form = default_form\<lparr>entry_ratio := ''-6''\<rparr>"

definition zero_ratio_form :: form where
  "zero_ratio_form = default_form\<lparr>entry_ratio := ''0''\<rparr>"

text \<open>A small box joint for which only the SVG output is selected.\<close>

definition svg_only_form :: form where
  "svg_only_form =
     default_form\<lparr>entry_board_width := ''20'', entry_dpi := ''25'',
       var_out_png := False, save_as := ''out/joint.v2.svg''\<rparr>"

section \<open>Evaluation and the finger loop\<close>

lemmas px_eval = to_px_def mm_to_px_def py_round_def
lemmas read_eval = py_float_def py_int_def strip_def split_sign_def is_digit_def
  digit_val_def is_space_def

lemmas finger_loop_induct =
  finger_loop.raw_induct[where xa="(((fw, e), x), d)" for fw e x d, simplified]

lemma finger_loop_stop: "\<not> x < e \<Longrightarrow> finger_loop fw e x d = Some []"
  by (subst finger_loop.simps) simp

lemma finger_loop_step:
  "x < e \<Longrightarrow> finger_loop fw e x d =
     Option.bind (finger_loop fw e (x + min fw (e - x)) (\<not> d))
       (\<lambda>rest. Some (\<lparr>seg_x = x, seg_width = min fw (e - x), solid = d\<rparr> # rest))"
  by (subst finger_loop.simps) (simp add: Let_def)

lemma finger_loop_Some_positive:
  "finger_loop fw e x d = Some segs \<Longrightarrow> x < e \<longrightarrow> 0 < fw"
proof (induction fw e x d segs rule: finger_loop_induct[rotated 1, consumes 1, case_names step])
  case (step f fw e x d segs)
  show ?case
  proof
    assume lt: "x < e"
    with step(2) obtain rest where
      r: "f fw e (x + min fw (e - x)) (\<not> d) = Some rest"
      by (auto simp: Let_def split: bind_splits)
    show "0 < fw"
    proof (rule ccontr)
      assume neg: "\<not> 0 < fw"
      with lt have "x + min fw (e - x) < e" by simp
      with step(1)[OF r] neg show False by simp
    qed
  qed
qed

lemma finger_loop_never_leaves:
  assumes "x < e" and "fw \<le> 0"
  shows "finger_loop fw e x d = None"
proof (cases "finger_loop fw e x d")
  case None
  then show ?thesis .
next
  case (Some segs)
  from finger_loop_Some_positive[OF Some] assms show ?thesis by simp
qed

lemma py_round_ge_floor: "\<lfloor>v\<rfloor> \<le> py_round v"
  by (simp add: py_round_def Let_def)

lemma py_round_positive: "1 / 2 < v \<Longrightarrow> 0 < py_round v"
proof -
  assume v: "1 / 2 < v"
  then have f: "0 \<le> \<lfloor>v\<rfloor>" by simp
  show ?thesis
  proof (cases "\<lfloor>v\<rfloor> = 0")
    case True
    with v have "1 / 2 < v - of_int \<lfloor>v\<rfloor>" by simp
    with True show ?thesis by (simp add: py_round_def Let_def)
  next
    case False
    with f have "0 < \<lfloor>v\<rfloor>" by linarith
    with py_round_ge_floor[of v] show ?thesis by linarith
  qed
qed

lemma py_round_nonneg: "0 \<le> v \<Longrightarrow> 0 \<le> py_round v"
  by (auto simp: py_round_def Let_def)

lemma finger_loop_terminates:
  "0 < fw \<Longrightarrow> \<exists>segs. finger_loop fw e x d = Some segs"
proof (induction "nat (e - x)" arbitrary: x d rule: less_induct)
  case less
  show ?case
  proof (cases "x < e")
    case False
    then show ?thesis by (simp add: finger_loop_stop)
  next
    case True
    let ?w = "min fw (e - x)"
    from True less.prems have "nat (e - (x + ?w)) < nat (e - x)" by simp
    from less.hyps[OF this less.prems]
    obtain rest where "finger_loop fw e (x + ?w) (\<not> d) = Some rest" by blast
    with True show ?thesis by (simp add: finger_loop_step)
  qed
qed

lemma finger_loop_spans:
  "0 < fw \<Longrightarrow> finger_loop fw e x d = Some segs \<Longrightarrow>
     sum_list (map seg_width segs) = max 0 (e - x) \<and>
     (\<forall>i < length segs.
        seg_x (segs ! i) = x + int i * fw \<and>
        seg_width (segs ! i) = min fw (e - seg_x (segs ! i)) \<and>
        0 < seg_width (segs ! i) \<and>
        solid (segs ! i) = (if even i then d else \<not> d))"
proof (induction "nat (e - x)" arbitrary: x d segs rule: less_induct)
  case less
  show ?case
  proof (cases "x < e")
    case False
    with less.prems(2) have "segs = []" by (simp add: finger_loop_stop)
    with False show ?thesis by simp
  next
    case True
    let ?w = "min fw (e - x)"
    let ?s = "\<lparr>seg_x = x, seg_width = ?w, solid = d\<rparr>"
    from True less.prems(2) obtain rest where
      rest: "finger_loop fw e (x + ?w) (\<not> d) = Some rest" and segs: "segs = ?s # rest"
      by (auto simp: finger_loop_step split: bind_splits)
    from True less.prems(1) have dec: "nat (e - (x + ?w)) < nat (e - x)" by simp
    note IH = less.hyps[OF dec less.prems(1) rest]
    from True less.prems(1) have wpos: "0 < ?w" by simp
    have sum: "sum_list (map seg_width segs) = max 0 (e - x)"
      using IH True segs by auto
    have idx: "seg_x (segs ! i) = x + int i * fw \<and>
        seg_width (segs ! i) = min fw (e - seg_x (segs ! i)) \<and>
        0 < seg_width (segs ! i) \<and>
        solid (segs ! i) = (if even i then d else \<not> d)" if i: "i < length segs" for i
    proof (cases i)
      case 0
      with segs wpos show ?thesis by simp
    next
      case (Suc j)
      with i segs have j: "j < length rest" by simp
      then have "rest \<noteq> []" by auto
      with rest finger_loop_stop[of "x + ?w" e fw "\<not> d"]
      have "x + ?w < e" by (cases "x + ?w < e") simp_all
      then have w: "?w = fw" by auto
      from IH j have h:
        "seg_x (rest ! j) = x + ?w + int j * fw"
        "seg_width (rest ! j) = min fw (e - seg_x (rest ! j))"
        "0 < seg_width (rest ! j)"
        "solid (rest ! j) = (if even j then \<not> d else \<not> \<not> d)" by blast+
      have nth: "segs ! i = rest ! j" using Suc segs by simp
      have "seg_x (rest ! j) = x + int i * fw"
        using h(1) w Suc by (simp only: of_nat_Suc algebra_simps)
      moreover have "solid (rest ! j) = (if even i then d else \<not> d)"
        using h(4) Suc by simp
      ultimately show ?thesis using h(2,3) nth by simp
    qed
    from sum idx show ?thesis by blast
  qed
qed

text \<open>
  Whenever the finger is at least one pixel wide, the loop returns, and its spans tile the
  board from left to right: they start at the left edge, each is as wide as the finger
  or as what is left of the board, their widths add up to the width of the board, and
  they alternate from the phase of the request.
\<close>

lemma box_segments_visible_finger:
  assumes "0 < to_px finger_width_mm dpi" and "0 < board_width_mm" and "0 < dpi"
  shows "\<exists>segs. box_segments board_width_mm finger_width_mm dpi start_with_finger = Some segs \<and>
     sum_list (map seg_width segs) = to_px board_width_mm dpi \<and>
     (\<forall>i < length segs.
        seg_x (segs ! i) = to_px 5 dpi + int i * to_px finger_width_mm dpi \<and>
        seg_width (segs ! i) =
          min (to_px finger_width_mm dpi)
              (to_px 5 dpi + to_px board_width_mm dpi - seg_x (segs ! i)) \<and>
        0 < seg_width (segs ! i) \<and>
        solid (segs ! i) = (if even i then start_with_finger else \<not> start_with_finger))"
proof -
  let ?fw = "to_px finger_width_mm dpi" and ?l = "to_px 5 dpi"
  let ?e = "to_px 5 dpi + to_px board_width_mm dpi"
  from assms(2,3) have "0 \<le> board_width_mm * mm_to_px dpi" by (simp add: mm_to_px_def)
  then have w: "0 \<le> to_px board_width_mm dpi" by (simp add: to_px_def py_round_nonneg)
  from finger_loop_terminates[OF assms(1)] obtain segs where
    s: "finger_loop ?fw ?e ?l start_with_finger = Some segs" by blast
  from finger_loop_spans[OF assms(1) s] have
    sum: "sum_list (map seg_width segs) = max 0 (?e - ?l)" and
    idx: "\<forall>i < length segs.
        seg_x (segs ! i) = ?l + int i * ?fw \<and>
        seg_width (segs ! i) = min ?fw (?e - seg_x (segs ! i)) \<and>
        0 < seg_width (segs ! i) \<and>
        solid (segs ! i) = (if even i then start_with_finger else \<not> start_with_finger)"
    by blast+
  from w have m: "max 0 (?e - ?l) = to_px board_width_mm dpi" by simp
  have bs: "box_segments board_width_mm finger_width_mm dpi start_with_finger = Some segs"
    using s by (simp add: box_segments_def Let_def)
  from bs sum[unfolded m] idx show ?thesis by blast
qed

lemma to_px_positive: "127 / 10 < v * real_of_int dpi \<Longrightarrow> 0 < to_px v dpi"
  by (simp add: to_px_def mm_to_px_def py_round_positive field_simps)

section \<open>The box joint\<close>

text \<open>
  Claim C1: for every box-joint request with \<open>0 < finger_width_mm \<le> board_width_mm\<close>
  and \<open>dpi > 0\<close> the segmenter emits segments whose widths sum to the width of the
  board in pixels, alternating from the configured phase. The code does so only when the
  finger is at least one pixel wide (\<open>box_segments_visible_finger\<close>). A board of 100 mm
  with a finger of 0.01 mm at 72 dots per inch passes the validation, the finger rounds
  to 0 pixels on a board of 283, and the segmenter emits no finite run of segments: the
  loop never leaves.
\<close>

theorem box_segments_thin_finger:
  "to_px 100 72 = 283 \<and> to_px (1 / 100) 72 = 0 \<and> box_segments 100 (1 / 100) 72 True = None"
proof -
  have a: "to_px 100 72 = 283" by (simp add: px_eval)
  have b: "to_px (1 / 100) 72 = 0" by (simp add: px_eval)
  have c: "to_px 5 72 = 14" by (simp add: px_eval)
  have "box_segments 100 (1 / 100) 72 True = finger_loop 0 297 14 True"
    by (simp add: box_segments_def a b c)
  with a b show ?thesis by (simp add: finger_loop_never_leaves)
qed

text \<open>
  Claim C7: for every box-joint request that passes the validation, the loop that emits
  the segments terminates. It does not on the request above: both
  \<^verbatim>\<open>generate_template\<close> of \<^verbatim>\<open>Box-Joint.py\<close> and \<^verbatim>\<open>generate_templates\<close> accept the
  form and never return. For a finger of at least one pixel the loop does terminate
  (\<open>finger_loop_terminates\<close>).
\<close>

theorem thin_finger_never_returns:
  "box_generate_template thin_finger_form = None \<and>
   generate_templates False thin_finger_form = None"
proof -
  have seg: "box_segments 100 (1 / 100) 72 True = None"
    by (simp add: box_segments_def px_eval finger_loop_never_leaves)
  have w: "py_float ''100'' = Some 100" by (simp add: read_eval)
  have h: "py_float ''40'' = Some 40" by (simp add: read_eval)
  have fw: "py_float ''0.01'' = Some (1 / 100)" by (simp add: read_eval)
  have dpi: "py_int ''72'' = Some 72" by (simp add: read_eval)
  have img: "generate_box_image 100 40 (1 / 100) 72 True = None"
    by (simp add: generate_box_image_def seg)
  have "box_generate_template thin_finger_form = None"
    by (simp add: box_generate_template_def thin_finger_form_def default_form_def w h fw dpi img)
  moreover have "generate_templates False thin_finger_form = None"
    by (simp add: generate_templates_def thin_finger_form_def default_form_def w h fw dpi img)
  ultimately show ?thesis by simp
qed

text \<open>
  Claim C5: with a board of 100 mm, a finger of 10 mm, 300 dots per inch and a solid
  start, the segmenter produces exactly 10 segments of 118 pixels. The board rounds to
  1181 pixels and the finger to 118, so the number of segments is not 10.
\<close>

theorem default_box_not_ten_segments:
  "map_option length (box_segments 100 10 300 True) \<noteq> Some 10"
  by (simp add: box_segments_def px_eval finger_loop.simps)

text \<open>
  Claim C5, as the code has it: the board is 1181 pixels wide and the finger 118; the
  segmenter produces 11 segments, ten alternating segments of 118 pixels, the first one
  solid, and a last solid segment clipped to the pixel that is left.
\<close>

theorem default_box_segments:
  "box_segments 100 10 300 True = Some
     [\<lparr>seg_x = 59, seg_width = 118, solid = True\<rparr>,
      \<lparr>seg_x = 177, seg_width = 118, solid = False\<rparr>,
      \<lparr>seg_x = 295, seg_width = 118, solid = True\<rparr>,
      \<lparr>seg_x = 413, seg_width = 118, solid = False\<rparr>,
      \<lparr>seg_x = 531, seg_width = 118, solid = True\<rparr>,
      \<lparr>seg_x = 649, seg_width = 118, solid = False\<rparr>,
      \<lparr>seg_x = 767, seg_width = 118, solid = True\<rparr>,
      \<lparr>seg_x = 885, seg_width = 118, solid = False\<rparr>,
      \<lparr>seg_x = 1003, seg_width = 118, solid = True\<rparr>,
      \<lparr>seg_x = 1121, seg_width = 118, solid = False\<rparr>,
      \<lparr>seg_x = 1239, seg_width = 1, solid = True\<rparr>]
   \<and> to_px 100 300 = 1181 \<and> to_px 10 300 = 118"
  by (simp add: box_segments_def px_eval finger_loop.simps)

text \<open>
  The vector export of the same request works in millimetres, where nothing is rounded:
  its loop makes ten steps of 10 mm and draws the five solid ones.
\<close>

lemma default_box_svg:
  "save_box_svg 100 40 10 True =
     Some \<lparr>svg_width = 100, svg_height = 40,
           svg_shapes = [SvgRect 0 0 100 40, SvgRect 0 0 10 40, SvgRect 20 0 10 40,
                         SvgRect 40 0 10 40, SvgRect 60 0 10 40, SvgRect 80 0 10 40]\<rparr>"
  by (simp add: save_box_svg_def svg_finger_loop.simps)

section \<open>The dovetail joint\<close>

text \<open>The number of units is never zero for a whole number of tails, so the division
  that gives the unit never fails.\<close>

lemma total_units_nonzero:
  "real_of_int n * 1 + (real_of_int n + 1) * (1 / 2) \<noteq> 0"
proof
  assume "real_of_int n * 1 + (real_of_int n + 1) * (1 / 2) = 0"
  then have "real_of_int (3 * n + 1) = 0" by (simp add: field_simps)
  then have "3 * n + 1 = 0" by (simp only: of_int_eq_0_iff)
  then show False by presburger
qed

lemma dovetail_tails_Inr:
  "ratio_val \<noteq> 0 \<Longrightarrow>
   dovetail_tails left_x top_y bottom_y width height num_tails ratio_val =
     Inr (map (tail_polygon
                 (left_x + 1 / 2 * (width / (of_int num_tails * 1 + (of_int num_tails + 1) * (1 / 2))))
                 (1 * (width / (of_int num_tails * 1 + (of_int num_tails + 1) * (1 / 2))))
                 (1 / 2 * (width / (of_int num_tails * 1 + (of_int num_tails + 1) * (1 / 2))))
                 (height / ratio_val) top_y bottom_y)
            [0 ..< nat num_tails])"
  using total_units_nonzero[of num_tails]
  unfolding dovetail_tails_def Let_def by simp

lemma tail_polygon_coords:
  "tail_polygon sx tw pw off top_y bottom_y i =
     [(sx + real i * (tw + pw), top_y),
      (sx + real i * (tw + pw) + tw, top_y),
      (if off < tw / 2 then sx + real i * (tw + pw) + tw - off
       else sx + real i * (tw + pw) + tw / 2, bottom_y),
      (if off < tw / 2 then sx + real i * (tw + pw) + off
       else sx + real i * (tw + pw) + tw / 2, bottom_y)]"
  by (auto simp: tail_polygon_def Let_def field_simps)

lemma dovetail_tails_InrD:
  assumes "dovetail_tails left_x top_y bottom_y width height num_tails ratio_val = Inr tails"
  shows "ratio_val \<noteq> 0"
    and "tails = map (tail_polygon
                 (left_x + 1 / 2 * (width / (of_int num_tails * 1 + (of_int num_tails + 1) * (1 / 2))))
                 (1 * (width / (of_int num_tails * 1 + (of_int num_tails + 1) * (1 / 2))))
                 (1 / 2 * (width / (of_int num_tails * 1 + (of_int num_tails + 1) * (1 / 2))))
                 (height / ratio_val) top_y bottom_y)
            [0 ..< nat num_tails]"
proof -
  show r: "ratio_val \<noteq> 0"
  proof
    assume "ratio_val = 0"
    with assms show False by (simp add: dovetail_tails_def Let_def split: if_splits)
  qed
  from assms dovetail_tails_Inr[OF r] show "tails = map (tail_polygon
                 (left_x + 1 / 2 * (width / (of_int num_tails * 1 + (of_int num_tails + 1) * (1 / 2))))
                 (1 * (width / (of_int num_tails * 1 + (of_int num_tails + 1) * (1 / 2))))
                 (1 / 2 * (width / (of_int num_tails * 1 + (of_int num_tails + 1) * (1 / 2))))
                 (height / ratio_val) top_y bottom_y)
            [0 ..< nat num_tails]" by simp
qed

lemma tail_polygon_bottom_ordered:
  "fst (tail_polygon sx tw pw off top_y bottom_y i ! 3)
     \<le> fst (tail_polygon sx tw pw off top_y bottom_y i ! 2)"
  by (simp add: tail_polygon_def Let_def)

lemma tail_polygon_inverted:
  assumes "sx + real i * (tw + pw) + tw - off \<le> sx + real i * (tw + pw) + off"
  shows "tail_polygon sx tw pw off top_y bottom_y i =
     [(sx + real i * (tw + pw), top_y),
      (sx + real i * (tw + pw) + tw, top_y),
      (((sx + real i * (tw + pw) + off) + (sx + real i * (tw + pw) + tw - off)) / 2, bottom_y),
      (((sx + real i * (tw + pw) + off) + (sx + real i * (tw + pw) + tw - off)) / 2, bottom_y)]"
  using assms by (simp add: tail_polygon_def Let_def)

text \<open>
  Claim C2: for every dovetail request with board width \<open>W\<close>, \<open>N \<ge> 1\<close> tails and ratio
  \<open>R > 0\<close>, the layout uses the unit \<open>W / (N * 1 + (N + 1) * 0.5)\<close>, tails one unit wide at
  the top, pins of half a unit, and a bottom inset of \<open>depth / R\<close> on each side; for
  \<open>W = 100\<close>, \<open>depth = 40\<close>, \<open>N = 3\<close> and \<open>R = 6\<close> the tails are 20 wide, the pins 10 and
  the inset is \<open>40 / 6\<close>. The theorem gives the corners of every tail from these four
  quantities (the inset \<open>depth / R\<close> is the one at the bottom whenever it is below half
  the width of the tail, the case that claim C3 sets apart), and the document that
  \<^verbatim>\<open>save_dovetail_svg\<close> writes for the example.
\<close>

theorem dovetail_layout_units:
  assumes "1 \<le> num_tails" and "0 < ratio_val"
  shows "(let unit = width / (of_int num_tails * 1 + (of_int num_tails + 1) * (1 / 2));
              tail_top = 1 * unit;
              pin = 1 / 2 * unit;
              inset = height / ratio_val
          in \<exists>tails.
               dovetail_tails left_x top_y bottom_y width height num_tails ratio_val = Inr tails \<and>
               length tails = nat num_tails \<and>
               (\<forall>i < nat num_tails.
                  tails ! i =
                    [(left_x + pin + real i * (tail_top + pin), top_y),
                     (left_x + pin + real i * (tail_top + pin) + tail_top, top_y),
                     (if inset < tail_top / 2
                      then left_x + pin + real i * (tail_top + pin) + tail_top - inset
                      else left_x + pin + real i * (tail_top + pin) + tail_top / 2, bottom_y),
                     (if inset < tail_top / 2
                      then left_x + pin + real i * (tail_top + pin) + inset
                      else left_x + pin + real i * (tail_top + pin) + tail_top / 2, bottom_y)]))
       \<and> save_dovetail_svg 100 40 3 6 =
           Inr \<lparr>svg_width = 100, svg_height = 40,
                svg_shapes =
                  [SvgRect 0 0 100 40,
                   SvgPolygon [(10, 0), (30, 0), (30 - 40 / 6, 40), (10 + 40 / 6, 40)],
                   SvgPolygon [(40, 0), (60, 0), (60 - 40 / 6, 40), (40 + 40 / 6, 40)],
                   SvgPolygon [(70, 0), (90, 0), (90 - 40 / 6, 40), (70 + 40 / 6, 40)]]\<rparr>"
proof -
  from assms(2) have r: "ratio_val \<noteq> 0" by simp
  have general: "(let unit = width / (of_int num_tails * 1 + (of_int num_tails + 1) * (1 / 2));
              tail_top = 1 * unit;
              pin = 1 / 2 * unit;
              inset = height / ratio_val
          in \<exists>tails.
               dovetail_tails left_x top_y bottom_y width height num_tails ratio_val = Inr tails \<and>
               length tails = nat num_tails \<and>
               (\<forall>i < nat num_tails.
                  tails ! i =
                    [(left_x + pin + real i * (tail_top + pin), top_y),
                     (left_x + pin + real i * (tail_top + pin) + tail_top, top_y),
                     (if inset < tail_top / 2
                      then left_x + pin + real i * (tail_top + pin) + tail_top - inset
                      else left_x + pin + real i * (tail_top + pin) + tail_top / 2, bottom_y),
                     (if inset < tail_top / 2
                      then left_x + pin + real i * (tail_top + pin) + inset
                      else left_x + pin + real i * (tail_top + pin) + tail_top / 2, bottom_y)]))"
  proof -
    define U where "U = width / (of_int num_tails * 1 + (of_int num_tails + 1) * (1 / 2))"
    let ?f = "tail_polygon (left_x + 1 / 2 * U) (1 * U) (1 / 2 * U) (height / ratio_val)
                top_y bottom_y"
    have eq: "dovetail_tails left_x top_y bottom_y width height num_tails ratio_val =
                Inr (map ?f [0 ..< nat num_tails])"
      using dovetail_tails_Inr[OF r] unfolding U_def .
    have len: "length (map ?f [0 ..< nat num_tails]) = nat num_tails" by simp
    have nth: "map ?f [0 ..< nat num_tails] ! i = ?f i" if "i < nat num_tails" for i
      using that by simp
    show ?thesis
      unfolding Let_def U_def[symmetric]
      apply (rule exI[of _ "map ?f [0 ..< nat num_tails]"])
      apply (intro conjI allI impI)
        apply (rule eq)
       apply (rule len)
      apply (simp only: nth tail_polygon_coords)
      done
  qed
  have example: "save_dovetail_svg 100 40 3 6 =
           Inr \<lparr>svg_width = 100, svg_height = 40,
                svg_shapes =
                  [SvgRect 0 0 100 40,
                   SvgPolygon [(10, 0), (30, 0), (30 - 40 / 6, 40), (10 + 40 / 6, 40)],
                   SvgPolygon [(40, 0), (60, 0), (60 - 40 / 6, 40), (40 + 40 / 6, 40)],
                   SvgPolygon [(70, 0), (90, 0), (90 - 40 / 6, 40), (70 + 40 / 6, 40)]]\<rparr>"
    by (simp add: save_dovetail_svg_def dovetail_tails_def tail_polygon_def upt_rec numeral_eq_Suc)
  from general example show ?thesis by (rule conjI)
qed

text \<open>The theorem at three tails, ratio 6, on a board of 100 by 40.\<close>

theorem dovetail_layout_units_witness:
  "(1::int) \<le> 3 \<and> (0::real) < 6 \<and>
   (\<exists>tails. dovetail_tails 0 0 40 100 40 3 6 = Inr tails \<and> length tails = 3 \<and>
      tails ! 0 = [(10, 0), (30, 0), (30 - 40 / 6, 40), (10 + 40 / 6, 40)])"
proof -
  have h1: "(1::int) \<le> 3" and h2: "(0::real) < 6" by simp_all
  note inst = dovetail_layout_units[OF h1 h2, where width = 100 and height = 40
      and left_x = 0 and top_y = 0 and bottom_y = 40, THEN conjunct1, unfolded Let_def]
  have "\<exists>tails. dovetail_tails 0 0 40 100 40 3 6 = Inr tails \<and> length tails = 3 \<and>
      tails ! 0 = [(10, 0), (30, 0), (30 - 40 / 6, 40), (10 + 40 / 6, 40)]"
    using inst
    apply (elim exE conjE)
    subgoal for tails
      apply (rule exI[of _ tails])
      apply (drule spec[of _ 0])
      apply simp
      done
    done
  with h1 h2 show ?thesis by (intro conjI)
qed

text \<open>
  Claim C3: a tail whose bottom edge would invert (right bottom bound at or left of the
  left one, which is the case when \<open>depth / R\<close> exceeds half the top width) has both
  bottom bounds at their common midpoint, so the bottom edge is a single point, and no
  tail crosses itself: in every tail the bottom left corner is not right of the bottom
  right one, and on a board of non-negative width the same holds at the top.
  Corner 0 is the top left, 1 the top right, 2 the bottom right, 3 the bottom left.
\<close>

theorem dovetail_inverted_tail_collapses:
  assumes "dovetail_tails left_x top_y bottom_y width height num_tails ratio_val = Inr tails"
    and "i < length tails"
  shows "(let unit = width / (of_int num_tails * 1 + (of_int num_tails + 1) * (1 / 2));
              tail_top_width = 1 * unit;
              pin_width = 1 / 2 * unit;
              offset = height / ratio_val;
              left_top = left_x + pin_width + real i * (tail_top_width + pin_width);
              right_top = left_top + tail_top_width;
              left_bottom = left_top + offset;
              right_bottom = right_top - offset
          in (tail_top_width / 2 < offset \<longrightarrow> right_bottom \<le> left_bottom) \<and>
             (right_bottom \<le> left_bottom \<longrightarrow>
                tails ! i = [(left_top, top_y), (right_top, top_y),
                             ((left_bottom + right_bottom) / 2, bottom_y),
                             ((left_bottom + right_bottom) / 2, bottom_y)]) \<and>
             fst (tails ! i ! 3) \<le> fst (tails ! i ! 2) \<and>
             (0 \<le> width \<and> 0 \<le> num_tails \<longrightarrow> fst (tails ! i ! 0) \<le> fst (tails ! i ! 1)))"
proof -
  define U where "U = width / (of_int num_tails * 1 + (of_int num_tails + 1) * (1 / 2))"
  let ?f = "tail_polygon (left_x + 1 / 2 * U) (1 * U) (1 / 2 * U) (height / ratio_val)
              top_y bottom_y"
  from dovetail_tails_InrD(2)[OF assms(1)]
  have tails: "tails = map ?f [0 ..< nat num_tails]" unfolding U_def .
  with assms(2) have i: "i < nat num_tails" by simp
  with tails have nth: "tails ! i = ?f i" by simp
  have a: "1 * U / 2 < height / ratio_val \<longrightarrow>
      left_x + 1 / 2 * U + real i * (1 * U + 1 / 2 * U) + 1 * U - height / ratio_val
        \<le> left_x + 1 / 2 * U + real i * (1 * U + 1 / 2 * U) + height / ratio_val"
  proof -
    have "1 * U / 2 < off \<longrightarrow> A + 1 * U - off \<le> A + off" for off A :: real
      by auto
    then show ?thesis .
  qed
  have b: "left_x + 1 / 2 * U + real i * (1 * U + 1 / 2 * U) + 1 * U - height / ratio_val
        \<le> left_x + 1 / 2 * U + real i * (1 * U + 1 / 2 * U) + height / ratio_val \<longrightarrow>
      tails ! i =
        [(left_x + 1 / 2 * U + real i * (1 * U + 1 / 2 * U), top_y),
         (left_x + 1 / 2 * U + real i * (1 * U + 1 / 2 * U) + 1 * U, top_y),
         ((left_x + 1 / 2 * U + real i * (1 * U + 1 / 2 * U) + height / ratio_val +
           (left_x + 1 / 2 * U + real i * (1 * U + 1 / 2 * U) + 1 * U - height / ratio_val)) / 2,
          bottom_y),
         ((left_x + 1 / 2 * U + real i * (1 * U + 1 / 2 * U) + height / ratio_val +
           (left_x + 1 / 2 * U + real i * (1 * U + 1 / 2 * U) + 1 * U - height / ratio_val)) / 2,
          bottom_y)]"
    unfolding nth by (rule impI) (rule tail_polygon_inverted)
  have c: "fst (tails ! i ! 3) \<le> fst (tails ! i ! 2)"
    unfolding nth by (rule tail_polygon_bottom_ordered)
  have d: "0 \<le> width \<and> 0 \<le> num_tails \<longrightarrow> fst (tails ! i ! 0) \<le> fst (tails ! i ! 1)"
  proof
    assume w: "0 \<le> width \<and> 0 \<le> num_tails"
    then have n: "0 \<le> real_of_int num_tails" by simp
    have "0 \<le> x \<Longrightarrow> 0 < x * 1 + (x + 1) * (1 / 2)" for x :: real by argo
    from this[OF n]
    have "0 < real_of_int num_tails * 1 + (real_of_int num_tails + 1) * (1 / 2)" .
    with w have "0 \<le> U" unfolding U_def by simp
    then show "fst (tails ! i ! 0) \<le> fst (tails ! i ! 1)"
      unfolding nth by (simp add: tail_polygon_def Let_def)
  qed
  from a b c d show ?thesis
    unfolding Let_def U_def[symmetric] by (intro conjI)
qed

text \<open>The theorem on the second of three tails with ratio 1 on a board of 100 by 40.\<close>

theorem dovetail_inverted_tail_collapses_witness:
  "dovetail_tails 0 0 40 100 40 3 1 =
     Inr [[(10, 0), (30, 0), (20, 40), (20, 40)],
          [(40, 0), (60, 0), (50, 40), (50, 40)],
          [(70, 0), (90, 0), (80, 40), (80, 40)]] \<and>
   (20 :: real) / 2 < 40 / 1 \<and>
   [[(10, 0), (30, 0), (20, 40), (20, 40)],
    [(40, 0), (60, 0), (50, 40), (50, 40)],
    [(70 :: real, 0 :: real), (90, 0), (80, 40), (80, 40)]] ! 1 =
     [(40, 0), (60, 0), ((40 + 40 + (60 - 40)) / 2, 40), ((40 + 40 + (60 - 40)) / 2, 40)]"
proof -
  have ev: "dovetail_tails 0 0 40 100 40 3 1 =
     Inr [[(10, 0), (30, 0), (20, 40), (20, 40)],
          [(40, 0), (60, 0), (50, 40), (50, 40)],
          [(70, 0), (90, 0), (80, 40), (80, 40)]]"
    by (simp add: dovetail_tails_def tail_polygon_def upt_rec numeral_eq_Suc)
  have i: "(1::nat) < length [[(10 :: real, 0 :: real), (30, 0), (20, 40), (20, 40)],
          [(40, 0), (60, 0), (50, 40), (50, 40)],
          [(70, 0), (90, 0), (80, 40), (80, 40)]]" by simp
  from dovetail_inverted_tail_collapses[OF ev i, unfolded Let_def] ev
  show ?thesis by simp
qed

text \<open>
  Claim C8: for every valid dovetail input (\<open>N \<ge> 1\<close>, \<open>R > 0\<close>, board dimensions that
  are not negative) exactly \<open>N\<close> tails are produced, one pin width is left free before
  the first tail and after the last one, and two consecutive tails never overlap: the
  gap between them is the pin width at the top and is not negative at the bottom.
\<close>

theorem dovetail_tails_count_and_gaps:
  assumes "1 \<le> num_tails" and "0 < ratio_val" and "0 \<le> width" and "0 \<le> height"
  shows "\<exists>tails.
           dovetail_tails left_x top_y bottom_y width height num_tails ratio_val = Inr tails \<and>
           length tails = nat num_tails \<and>
           (let pin_width = 1 / 2 * (width / (of_int num_tails * 1 + (of_int num_tails + 1) * (1 / 2)))
            in 0 \<le> pin_width \<and>
               fst (hd tails ! 0) - left_x = pin_width \<and>
               (left_x + width) - fst (last tails ! 1) = pin_width \<and>
               (\<forall>i. Suc i < nat num_tails \<longrightarrow>
                  fst (tails ! Suc i ! 0) - fst (tails ! i ! 1) = pin_width \<and>
                  0 \<le> fst (tails ! Suc i ! 3) - fst (tails ! i ! 2)))"
proof -
  define T where "T = real_of_int num_tails * 1 + (real_of_int num_tails + 1) * (1 / 2)"
  define U where "U = width / T"
  define off where "off = height / ratio_val"
  let ?f = "tail_polygon (left_x + 1 / 2 * U) (1 * U) (1 / 2 * U) off top_y bottom_y"
  let ?tails = "map ?f [0 ..< nat num_tails]"
  from assms(2) have r: "ratio_val \<noteq> 0" by simp
  have eq: "dovetail_tails left_x top_y bottom_y width height num_tails ratio_val = Inr ?tails"
    using dovetail_tails_Inr[OF r] unfolding U_def T_def off_def .
  have len: "length ?tails = nat num_tails" by simp
  from assms(1) have n: "real (nat num_tails) = real_of_int num_tails" by simp
  from assms(1) have npos: "0 < nat num_tails" by simp
  have Tpos: "0 < T"
  proof -
    from assms(1) have "0 \<le> real_of_int num_tails" by simp
    moreover have "0 \<le> x \<Longrightarrow> 0 < x * 1 + (x + 1) * (1 / 2)" for x :: real by argo
    ultimately show ?thesis unfolding T_def by blast
  qed
  with assms(3) have Upos: "0 \<le> U" unfolding U_def by simp
  from assms(2,4) have offpos: "0 \<le> off" unfolding off_def by simp
  have W: "width = U * T" using Tpos unfolding U_def by simp
  have T3: "T = (3 * real_of_int num_tails + 1) / 2" unfolding T_def by (simp add: field_simps)
  have pin: "0 \<le> 1 / 2 * U" using Upos by simp
  have first: "fst (hd ?tails ! 0) - left_x = 1 / 2 * U"
    using npos by (simp add: hd_map upt_conv_Cons tail_polygon_def Let_def)
  have last: "(left_x + width) - fst (last ?tails ! 1) = 1 / 2 * U"
  proof -
    from npos obtain m where m: "nat num_tails = Suc m" by (cases "nat num_tails") auto
    have rl: "real m = real_of_int num_tails - 1" using n unfolding m by simp
    have "last ?tails = ?f m" unfolding m by simp
    then have "fst (last ?tails ! 1)
        = left_x + 1 / 2 * U + (real_of_int num_tails - 1) * (1 * U + 1 / 2 * U) + 1 * U"
      by (simp add: rl tail_polygon_def Let_def)
    then show ?thesis unfolding W T3 by (simp add: field_simps)
  qed
  have gaps: "fst (?tails ! Suc i ! 0) - fst (?tails ! i ! 1) = 1 / 2 * U \<and>
              0 \<le> fst (?tails ! Suc i ! 3) - fst (?tails ! i ! 2)"
    if i: "Suc i < nat num_tails" for i
  proof -
    from i have i': "i < nat num_tails" by simp
    have a: "?tails ! Suc i = ?f (Suc i)" using i by simp
    have b: "?tails ! i = ?f i" using i' by simp
    have top: "fst (?f (Suc i) ! 0) - fst (?f i ! 1) = 1 / 2 * U"
      by (simp add: tail_polygon_def Let_def field_simps)
    have bottom: "0 \<le> fst (?f (Suc i) ! 3) - fst (?f i ! 2)"
      using Upos offpos by (simp add: tail_polygon_coords field_simps)
    from top bottom show ?thesis unfolding a b by (rule conjI)
  qed
  show ?thesis
    unfolding Let_def T_def[symmetric] U_def[symmetric]
    apply (rule exI[of _ ?tails])
    apply (intro conjI allI impI)
          apply (rule eq)
         apply (rule len)
        apply (rule pin)
       apply (rule first)
      apply (rule last)
     apply (erule gaps[THEN conjunct1])
    apply (erule gaps[THEN conjunct2])
    done
qed

text \<open>The theorem at three tails, ratio 6, on a board of 100 by 40.\<close>

theorem dovetail_tails_count_and_gaps_witness:
  "(1::int) \<le> 3 \<and> (0::real) < 6 \<and> (0::real) \<le> 100 \<and> (0::real) \<le> 40 \<and>
   (\<exists>tails. dovetail_tails 0 0 40 100 40 3 6 = Inr tails \<and> length tails = 3 \<and>
      fst (hd tails ! 0) - 0 = 10 \<and> (0 + 100) - fst (last tails ! 1) = 10 \<and>
      fst (tails ! Suc 0 ! 0) - fst (tails ! 0 ! 1) = 10 \<and>
      0 \<le> fst (tails ! Suc 0 ! 3) - fst (tails ! 0 ! 2))"
proof -
  have h1: "(1::int) \<le> 3" and h2: "(0::real) < 6" and h3: "(0::real) \<le> 100"
    and h4: "(0::real) \<le> 40" by simp_all
  note inst = dovetail_tails_count_and_gaps[OF h1 h2 h3 h4, where left_x = 0 and top_y = 0
      and bottom_y = 40, unfolded Let_def]
  have "\<exists>tails. dovetail_tails 0 0 40 100 40 3 6 = Inr tails \<and> length tails = 3 \<and>
      fst (hd tails ! 0) - 0 = 10 \<and> (0 + 100) - fst (last tails ! 1) = 10 \<and>
      fst (tails ! Suc 0 ! 0) - fst (tails ! 0 ! 1) = 10 \<and>
      0 \<le> fst (tails ! Suc 0 ! 3) - fst (tails ! 0 ! 2)"
    using inst
    apply (elim exE conjE)
    subgoal for tails
      apply (rule exI[of _ tails])
      apply (drule spec[of _ 0])
      apply simp
      done
    done
  with h1 h2 h3 h4 show ?thesis by (intro conjI)
qed

section \<open>The ratio parser: results\<close>

lemma split_on_nonempty: "split_on sep s \<noteq> []"
  by (induction s) (auto split: list.splits)

lemma split_on_two_parts:
  "sep \<in> set s \<Longrightarrow> \<exists>l r rest. split_on sep s = l # r # rest"
proof (induction s)
  case Nil
  then show ?case by simp
next
  case (Cons c cs)
  show ?case
  proof (cases "c = sep")
    case True
    obtain p ps where "split_on sep cs = p # ps"
      using split_on_nonempty[of sep cs] by (cases "split_on sep cs") auto
    with True show ?thesis by simp
  next
    case False
    with Cons.prems have "sep \<in> set cs" by simp
    from Cons.IH[OF this] obtain l r rest where "split_on sep cs = l # r # rest" by blast
    with False show ?thesis by simp
  qed
qed

text \<open>
  Claim C4: the ratio parser maps a bare number to its value (\<^verbatim>\<open>"6"\<close> to 6) and a colon
  form \<^verbatim>\<open>"L:R"\<close> to \<open>R / L\<close> (\<^verbatim>\<open>"1:6"\<close> to 6), and fails with the error of an invalid
  format exactly when the left side of a colon form is zero (\<^verbatim>\<open>"0:6"\<close>) or when a side
  that it reads is not numeric (\<^verbatim>\<open>"abc"\<close>). Both parsers are covered; the sides of a
  colon form are the first two parts of the text split at the colons.
\<close>

theorem ratio_parser_cases:
  "dovetail_parse_ratio ''6'' = Inr 6 \<and> dovetail_parse_ratio ''1:6'' = Inr 6 \<and>
   (\<exists>m. dovetail_parse_ratio ''0:6'' = Inl (ValueError m)) \<and>
   (\<exists>m. dovetail_parse_ratio ''abc'' = Inl (ValueError m)) \<and>
   parse_ratio ''6'' = Inr 6 \<and> parse_ratio ''1:6'' = Inr 6 \<and>
   (\<exists>m. parse_ratio ''0:6'' = Inl (ValueError m)) \<and>
   (\<exists>m. parse_ratio ''abc'' = Inl (ValueError m)) \<and>
   (let t = strip text; parts = split_on CHR '':'' t in
      (CHR '':'' \<notin> set t \<longrightarrow>
         (case py_float t of
            Some v \<Rightarrow> dovetail_parse_ratio text = Inr v \<and> parse_ratio text = Inr v
          | None \<Rightarrow> (\<exists>m. dovetail_parse_ratio text = Inl (ValueError m)) \<and>
                    (\<exists>m. parse_ratio text = Inl (ValueError m)))) \<and>
      (CHR '':'' \<in> set t \<longrightarrow>
         2 \<le> length parts \<and>
         (case (py_float (parts ! 0), py_float (parts ! 1)) of
            (Some left, Some right) \<Rightarrow>
              if left = 0
              then (\<exists>m. dovetail_parse_ratio text = Inl (ValueError m)) \<and>
                   (\<exists>m. parse_ratio text = Inl (ValueError m))
              else dovetail_parse_ratio text = Inr (right / left) \<and>
                   parse_ratio text = Inr (right / left)
          | _ \<Rightarrow> (\<exists>m. dovetail_parse_ratio text = Inl (ValueError m)) \<and>
                 (\<exists>m. parse_ratio text = Inl (ValueError m)))))"
proof -
  have ex: "dovetail_parse_ratio ''6'' = Inr 6" "dovetail_parse_ratio ''1:6'' = Inr 6"
    "\<exists>m. dovetail_parse_ratio ''0:6'' = Inl (ValueError m)"
    "\<exists>m. dovetail_parse_ratio ''abc'' = Inl (ValueError m)"
    "parse_ratio ''6'' = Inr 6" "parse_ratio ''1:6'' = Inr 6"
    "\<exists>m. parse_ratio ''0:6'' = Inl (ValueError m)"
    "\<exists>m. parse_ratio ''abc'' = Inl (ValueError m)"
    by (simp_all add: dovetail_parse_ratio_def parse_ratio_def py_float_def strip_def
        split_sign_def is_digit_def digit_val_def is_space_def)
  define t where "t = strip text"
  have bare: "case py_float t of
            Some v \<Rightarrow> dovetail_parse_ratio text = Inr v \<and> parse_ratio text = Inr v
          | None \<Rightarrow> (\<exists>m. dovetail_parse_ratio text = Inl (ValueError m)) \<and>
                    (\<exists>m. parse_ratio text = Inl (ValueError m))"
    if "CHR '':'' \<notin> set t"
    using that unfolding t_def
    by (simp add: dovetail_parse_ratio_def parse_ratio_def Let_def split: option.splits)
  have colon: "2 \<le> length (split_on CHR '':'' t) \<and>
         (case (py_float (split_on CHR '':'' t ! 0), py_float (split_on CHR '':'' t ! 1)) of
            (Some left, Some right) \<Rightarrow>
              if left = 0
              then (\<exists>m. dovetail_parse_ratio text = Inl (ValueError m)) \<and>
                   (\<exists>m. parse_ratio text = Inl (ValueError m))
              else dovetail_parse_ratio text = Inr (right / left) \<and>
                   parse_ratio text = Inr (right / left)
          | _ \<Rightarrow> (\<exists>m. dovetail_parse_ratio text = Inl (ValueError m)) \<and>
                 (\<exists>m. parse_ratio text = Inl (ValueError m)))"
    if c: "CHR '':'' \<in> set t"
  proof -
    from split_on_two_parts[OF c] obtain l r rest where
      p: "split_on CHR '':'' t = l # r # rest" by blast
    from c p show ?thesis unfolding t_def
      by (simp add: dovetail_parse_ratio_def parse_ratio_def Let_def split: option.splits)
  qed
  from bare colon have gen: "(let t = strip text; parts = split_on CHR '':'' t in
      (CHR '':'' \<notin> set t \<longrightarrow>
         (case py_float t of
            Some v \<Rightarrow> dovetail_parse_ratio text = Inr v \<and> parse_ratio text = Inr v
          | None \<Rightarrow> (\<exists>m. dovetail_parse_ratio text = Inl (ValueError m)) \<and>
                    (\<exists>m. parse_ratio text = Inl (ValueError m)))) \<and>
      (CHR '':'' \<in> set t \<longrightarrow>
         2 \<le> length parts \<and>
         (case (py_float (parts ! 0), py_float (parts ! 1)) of
            (Some left, Some right) \<Rightarrow>
              if left = 0
              then (\<exists>m. dovetail_parse_ratio text = Inl (ValueError m)) \<and>
                   (\<exists>m. parse_ratio text = Inl (ValueError m))
              else dovetail_parse_ratio text = Inr (right / left) \<and>
                   parse_ratio text = Inr (right / left)
          | _ \<Rightarrow> (\<exists>m. dovetail_parse_ratio text = Inl (ValueError m)) \<and>
                 (\<exists>m. parse_ratio text = Inl (ValueError m)))))"
    unfolding Let_def t_def by blast
  from ex gen show ?thesis by (intro conjI)
qed

text \<open>The theorem on a colon form between blanks and on a bare number.\<close>

theorem ratio_parser_cases_witness:
  "CHR '':'' \<in> set (strip '' 2:5 '') \<and>
   dovetail_parse_ratio '' 2:5 '' = Inr (5 / 2) \<and> parse_ratio '' 2:5 '' = Inr (5 / 2) \<and>
   CHR '':'' \<notin> set (strip ''1.5'') \<and>
   dovetail_parse_ratio ''1.5'' = Inr (3 / 2) \<and> parse_ratio ''1.5'' = Inr (3 / 2)"
proof -
  have a: "CHR '':'' \<in> set (strip '' 2:5 '')" and b: "CHR '':'' \<notin> set (strip ''1.5'')"
    by (simp_all add: strip_def is_space_def)
  have s1: "strip '' 2:5 '' = ''2:5''" and s2: "strip ''1.5'' = ''1.5''"
    by (simp_all add: strip_def is_space_def)
  have f: "py_float ''2'' = Some 2" "py_float ''5'' = Some 5" "py_float ''1.5'' = Some (3 / 2)"
    by (simp_all add: py_float_def strip_def split_sign_def is_digit_def digit_val_def
        is_space_def)
  from ratio_parser_cases[of "'' 2:5 ''"]
  have c: "dovetail_parse_ratio '' 2:5 '' = Inr (5 / 2) \<and> parse_ratio '' 2:5 '' = Inr (5 / 2)"
    by (simp add: Let_def s1 f)
  from ratio_parser_cases[of "''1.5''"]
  have d: "dovetail_parse_ratio ''1.5'' = Inr (3 / 2) \<and> parse_ratio ''1.5'' = Inr (3 / 2)"
    by (simp add: Let_def s2 f)
  from a b c d show ?thesis by simp
qed

section \<open>The ruler: results\<close>

lemma ruler_loop_ticks:
  "(\<forall>j < n. real_of_int (m + 10 * int j) \<le> len + 1 / 100) \<Longrightarrow>
   \<not> real_of_int (m + 10 * int n) \<le> len + 1 / 100 \<Longrightarrow>
   ruler_loop left_x dpi len m =
     map (\<lambda>k. (left_x + to_px (of_int (m + 10 * int k)) dpi, m + 10 * int k)) [0 ..< n]"
proof (induction n arbitrary: m)
  case 0
  then show ?case by simp
next
  case (Suc n)
  from Suc.prems(1) have here: "real_of_int m \<le> len + 1 / 100" by force
  have a: "\<forall>j < n. real_of_int (m + 10 + 10 * int j) \<le> len + 1 / 100"
  proof (intro allI impI)
    fix j assume "j < n"
    then have "Suc j < Suc n" by simp
    with Suc.prems(1) have "real_of_int (m + 10 * int (Suc j)) \<le> len + 1 / 100" by blast
    then show "real_of_int (m + 10 + 10 * int j) \<le> len + 1 / 100"
      by (simp add: algebra_simps)
  qed
  have b: "\<not> real_of_int (m + 10 + 10 * int n) \<le> len + 1 / 100"
    using Suc.prems(2) by (simp add: algebra_simps)
  have shift: "map (\<lambda>k. (left_x + to_px (of_int (m + 10 * int k)) dpi, m + 10 * int k))
                 [Suc 0 ..< Suc n]
             = map (\<lambda>k. (left_x + to_px (of_int (m + 10 + 10 * int k)) dpi, m + 10 + 10 * int k))
                 [0 ..< n]"
    by (simp add: map_Suc_upt[symmetric] del: upt_Suc) (simp add: algebra_simps)
  have "ruler_loop left_x dpi len m =
      (left_x + to_px (of_int m) dpi, m) # ruler_loop left_x dpi len (m + 10)"
    using here by simp
  also have "ruler_loop left_x dpi len (m + 10) =
      map (\<lambda>k. (left_x + to_px (of_int (m + 10 + 10 * int k)) dpi, m + 10 + 10 * int k)) [0 ..< n]"
    by (rule Suc.IH[OF a b])
  finally show ?case
    by (simp only: shift[symmetric] upt_conv_Cons[of 0 "Suc n"] zero_less_Suc list.map)
       simp
qed

text \<open>
  Claim C9: the base line of the ruler spans \<open>min board_width_mm 200\<close> millimetres, with a
  tick and a label every 10 mm from 0, the last one at the largest multiple of 10 that
  does not exceed the capped length by more than 0.01 mm; on a board of 250 mm these are
  the 21 ticks 0, 10, ..., 200 and none beyond.
\<close>

theorem ruler_ticks_every_10mm:
  assumes "0 < board_width_mm"
  shows "(let ruler_length_mm = min board_width_mm 200;
              n = nat \<lfloor>(ruler_length_mm + 1 / 100) / 10\<rfloor>
          in draw_ruler left_x bottom_y board_width_mm dpi =
               ((left_x, bottom_y + 10, left_x + to_px ruler_length_mm dpi, bottom_y + 10),
                map (\<lambda>k. (left_x + to_px (of_int (10 * int k)) dpi, 10 * int k)) [0 ..< Suc n]) \<and>
             real (10 * n) \<le> ruler_length_mm + 1 / 100 \<and>
             ruler_length_mm + 1 / 100 < real (10 * n) + 10)
       \<and> map snd (snd (draw_ruler left_x bottom_y 250 dpi)) =
           [0, 10, 20, 30, 40, 50, 60, 70, 80, 90, 100,
            110, 120, 130, 140, 150, 160, 170, 180, 190, 200]"
proof -
  define len where "len = min board_width_mm 200"
  define q where "q = \<lfloor>(len + 1 / 100) / 10\<rfloor>"
  define n where "n = nat q"
  from assms have lpos: "0 < len" unfolding len_def by simp
  then have "0 \<le> (len + 1 / 100) / 10" by simp
  then have qpos: "0 \<le> q" unfolding q_def by simp
  then have nq: "int n = q" unfolding n_def by simp
  have lo: "real_of_int q \<le> (len + 1 / 100) / 10" unfolding q_def by (rule of_int_floor_le)
  have hi: "(len + 1 / 100) / 10 < real_of_int q + 1" unfolding q_def by linarith
  have rn: "real n = real_of_int q" using nq by (metis of_int_of_nat_eq)
  have bound1: "real (10 * n) \<le> len + 1 / 100" using lo rn by simp
  have bound2: "len + 1 / 100 < real (10 * n) + 10" using hi rn by simp
  have a: "\<forall>j < Suc n. real_of_int (0 + 10 * int j) \<le> len + 1 / 100"
  proof (intro allI impI)
    fix j assume "j < Suc n"
    then have "real j \<le> real n" by simp
    with bound1 show "real_of_int (0 + 10 * int j) \<le> len + 1 / 100" by simp
  qed
  have b: "\<not> real_of_int (0 + 10 * int (Suc n)) \<le> len + 1 / 100"
    using bound2 by simp
  have loop: "ruler_loop left_x dpi len 0 =
      map (\<lambda>k. (left_x + to_px (of_int (10 * int k)) dpi, 10 * int k)) [0 ..< Suc n]"
    using ruler_loop_ticks[OF a b, of left_x dpi] by (simp only: add_0)
  have general: "draw_ruler left_x bottom_y board_width_mm dpi =
               ((left_x, bottom_y + 10, left_x + to_px len dpi, bottom_y + 10),
                map (\<lambda>k. (left_x + to_px (of_int (10 * int k)) dpi, 10 * int k)) [0 ..< Suc n])"
    unfolding draw_ruler_def Let_def len_def[symmetric] loop ..
  have example: "map snd (snd (draw_ruler left_x bottom_y 250 dpi)) =
           [0, 10, 20, 30, 40, 50, 60, 70, 80, 90, 100,
            110, 120, 130, 140, 150, 160, 170, 180, 190, 200]"
    by (simp add: draw_ruler_def Let_def)
  from general bound1 bound2 example show ?thesis
    unfolding Let_def len_def[symmetric] q_def[symmetric] n_def[symmetric]
    by (intro conjI)
qed

text \<open>The theorem on a board of 95 mm at 300 dots per inch.\<close>

theorem ruler_ticks_every_10mm_witness:
  "(0 :: real) < 95 \<and>
   draw_ruler 59 500 95 300 =
     ((59, 510, 59 + 1122, 510),
      [(59, 0), (177, 10), (295, 20), (413, 30), (531, 40), (650, 50), (768, 60),
       (886, 70), (1004, 80), (1122, 90)])"
proof -
  have h: "(0 :: real) < 95" by simp
  have px: "to_px 95 300 = 1122" by (simp add: to_px_def mm_to_px_def py_round_def)
  from ruler_ticks_every_10mm[OF h, of 59 500 300, THEN conjunct1, unfolded Let_def,
      THEN conjunct1]
  have "draw_ruler 59 500 95 300 =
     ((59, 510, 59 + 1122, 510),
      [(59, 0), (177, 10), (295, 20), (413, 30), (531, 40), (650, 50), (768, 60),
       (886, 70), (1004, 80), (1122, 90)])"
    by (simp add: px upt_rec to_px_def mm_to_px_def py_round_def)
  with h show ?thesis by (rule conjI)
qed

section \<open>Validation of the ratio\<close>

lemma report_not_info: "report e \<noteq> ShowInfo t m"
  by (cases e) simp_all

lemma generate_templates_rejects_ratio:
  assumes "joint_type_var f \<noteq> ''box''" and "parse_ratio (entry_ratio f) = Inr r" and "r \<le> 0"
    and "generate_templates docx_available f = Some (dlg, files)"
  shows "files = [] \<and> (\<exists>t m. dlg = ShowError t m)"
proof -
  have rep: "\<exists>t m. report e = ShowError t m" for e by (cases e) simp_all
  from assms show ?thesis
    unfolding generate_templates_def
    by (auto split: option.splits if_splits simp: rep)
qed

text \<open>
  Claim C6: a dovetail request whose ratio is not strictly positive is rejected as a
  validation error before any layout is computed, and nothing is written.
  \<^verbatim>\<open>generate_templates\<close> does this (\<open>generate_templates_rejects_ratio\<close>), but
  \<^verbatim>\<open>generate_template\<close> of \<^verbatim>\<open>Dovetail-Joint.py\<close> never tests the ratio: with
  \<^verbatim>\<open>-6\<close> it saves a template whose tails are wider at the bottom than at the top, and
  with \<^verbatim>\<open>0\<close> it fails in the middle of the layout on a division by zero.
\<close>

theorem dovetail_nonpositive_ratio_not_rejected:
  "(\<exists>img. dovetail_generate_template negative_ratio_form =
      (ShowInfo ''Done'' (''Template saved to:'' @ newline @ ''template.png''),
       [PngFile ''template.png'' img]) \<and>
      hd (polygons img) =
        [(1771 / 10, 109), (4133 / 10, 109),
         (4133 / 10 + 236 / 3, 581), (1771 / 10 - 236 / 3, 581)]) \<and>
   dovetail_generate_template zero_ratio_form =
     (ShowError ''Error'' (''An error occurred:'' @ newline @ ''float division by zero''), [])"
proof -
  have w: "py_float ''100'' = Some 100" and h: "py_float ''40'' = Some 40"
    and n: "py_int ''3'' = Some 3" and d: "py_int ''300'' = Some 300"
    by (simp_all add: read_eval)
  have r1: "dovetail_parse_ratio ''-6'' = Inr (- 6)"
    and r2: "dovetail_parse_ratio ''0'' = Inr 0"
    by (simp_all add: dovetail_parse_ratio_def read_eval)
  have px: "to_px 5 300 = 59" "to_px 100 300 = 1181" "to_px 40 300 = 472"
    by (simp_all add: px_eval)
  have t: "dovetail_tails 59 109 581 1181 472 3 (- 6) =
     Inr [[(1771 / 10, 109), (4133 / 10, 109),
           (4133 / 10 + 236 / 3, 581), (1771 / 10 - 236 / 3, 581)],
          tail_polygon (59 + 1181 / 10) (1181 / 5) (1181 / 10) (- (236 / 3)) 109 581 1,
          tail_polygon (59 + 1181 / 10) (1181 / 5) (1181 / 10) (- (236 / 3)) 109 581 2]"
    by (simp add: dovetail_tails_def upt_rec numeral_eq_Suc) (simp add: tail_polygon_def)
  have img1: "\<exists>img. generate_dovetail_image 100 40 3 (- 6) 300 = Inr img \<and>
      hd (polygons img) =
        [(1771 / 10, 109), (4133 / 10, 109),
         (4133 / 10 + 236 / 3, 581), (1771 / 10 - 236 / 3, 581)]"
    by (simp add: generate_dovetail_image_def px t Let_def)
  have img2: "generate_dovetail_image 100 40 3 0 300 = Inl ZeroDivisionError"
    by (simp add: generate_dovetail_image_def dovetail_tails_def Let_def)
  from img1 obtain img where
    i: "generate_dovetail_image 100 40 3 (- 6) 300 = Inr img" and
    p: "hd (polygons img) =
        [(1771 / 10, 109), (4133 / 10, 109),
         (4133 / 10 + 236 / 3, 581), (1771 / 10 - 236 / 3, 581)]" by blast
  have a: "dovetail_generate_template negative_ratio_form =
      (ShowInfo ''Done'' (''Template saved to:'' @ newline @ ''template.png''),
       [PngFile ''template.png'' img])"
    by (simp add: dovetail_generate_template_def negative_ratio_form_def default_form_def
        w h n d r1 i)
  have b: "dovetail_generate_template zero_ratio_form =
     (ShowError ''Error'' (''An error occurred:'' @ newline @ ''float division by zero''), [])"
    by (simp add: dovetail_generate_template_def zero_ratio_form_def default_form_def
        w h n d r2 img2)
  from a p b show ?thesis by blast
qed

section \<open>The master image of the combined generator\<close>

lemma write_outputs_png:
  assumes "write_outputs docx_available f jt board_width_mm board_height_mm dpi img =
             Some (ShowInfo title msg, files)"
  shows "\<exists>messages.
           files \<noteq> [] \<and>
           hd files = PngFile (fst (splitext (save_as f)) @ ''.png'') img \<and>
           msg = ''Generated:'' @ newline @ join_lines messages \<and>
           ((''PNG: '' @ fst (splitext (save_as f)) @ ''.png'') \<in> set messages
              \<longleftrightarrow> var_out_png f)"
proof -
  define base where "base = fst (splitext (save_as f))"
  define m1 where "m1 = (if var_out_png f then [''PNG: '' @ base @ ''.png''] else [])"
  define m2 where "m2 = m1 @ (if var_out_pdf f then [''PDF: '' @ base @ ''.pdf''] else [])"
  define m3 where
    "m3 = m2 @ (if var_out_svg f then [''SVG (LightBurn): '' @ base @ ''.svg''] else [])"
  define m4 where
    "m4 = m3 @ (if var_out_docx f then [''Word (DOCX): '' @ base @ ''.docx''] else [])"
  have mem: "(''PNG: '' @ base @ ''.png'') \<in> set m4 \<longleftrightarrow> var_out_png f"
    unfolding m4_def m3_def m2_def m1_def by simp
  from assms have
    "files \<noteq> [] \<and> hd files = PngFile (base @ ''.png'') img \<and>
     msg = ''Generated:'' @ newline @ join_lines m4"
    unfolding write_outputs_def Let_def base_def[symmetric]
    by (auto split: bind_splits if_splits joint.splits sum.splits
          simp: report_not_info m4_def m3_def m2_def m1_def)
  with mem show ?thesis unfolding base_def by blast
qed

text \<open>
  Claim C10: in the combined generator every generation that succeeds writes a PNG file
  at the chosen base name, first of all files, whether or not the PNG output is
  selected; only the line for it in the message depends on the selection.
\<close>

theorem png_master_always_written:
  assumes "generate_templates docx_available f = Some (ShowInfo title msg, files)"
  shows "\<exists>img messages.
           files \<noteq> [] \<and>
           hd files = PngFile (fst (splitext (save_as f)) @ ''.png'') img \<and>
           msg = ''Generated:'' @ newline @ join_lines messages \<and>
           ((''PNG: '' @ fst (splitext (save_as f)) @ ''.png'') \<in> set messages
              \<longleftrightarrow> var_out_png f)"
proof -
  from assms obtain jt bw bh dpi img where
    "write_outputs docx_available f jt bw bh dpi img = Some (ShowInfo title msg, files)"
    unfolding generate_templates_def
    by (auto split: option.splits if_splits sum.splits bind_splits simp: report_not_info)
  from write_outputs_png[OF this] show ?thesis by blast
qed

text \<open>The theorem on a request for which only the SVG output is selected.\<close>

theorem png_master_always_written_witness:
  "\<not> var_out_png svg_only_form \<and>
   (\<exists>img doc. generate_templates False svg_only_form =
      Some (ShowInfo ''Templates generated''
              (''Generated:'' @ newline @ ''SVG (LightBurn): out/joint.v2.svg''),
            [PngFile ''out/joint.v2.png'' img, SvgFile ''out/joint.v2.svg'' doc]) \<and>
      hd [PngFile ''out/joint.v2.png'' img, SvgFile ''out/joint.v2.svg'' doc] =
        PngFile (fst (splitext (save_as svg_only_form)) @ ''.png'') img)"
proof -
  have ev: "\<exists>img doc. generate_templates False svg_only_form =
      Some (ShowInfo ''Templates generated''
              (''Generated:'' @ newline @ ''SVG (LightBurn): out/joint.v2.svg''),
            [PngFile ''out/joint.v2.png'' img, SvgFile ''out/joint.v2.svg'' doc])"
    by (simp add: svg_only_form_def default_form_def generate_templates_def read_eval px_eval
        generate_box_image_def box_segments_def finger_loop.simps write_outputs_def
        splitext_def save_box_svg_def svg_finger_loop.simps Let_def newline_def
        draw_ruler_def drawn_rectangles_def)
  then obtain img doc where
    g: "generate_templates False svg_only_form =
      Some (ShowInfo ''Templates generated''
              (''Generated:'' @ newline @ ''SVG (LightBurn): out/joint.v2.svg''),
            [PngFile ''out/joint.v2.png'' img, SvgFile ''out/joint.v2.svg'' doc])" by blast
  from png_master_always_written[OF g] obtain img' where
    "hd [PngFile ''out/joint.v2.png'' img, SvgFile ''out/joint.v2.svg'' doc] =
        PngFile (fst (splitext (save_as svg_only_form)) @ ''.png'') img'" by blast
  then have "hd [PngFile ''out/joint.v2.png'' img, SvgFile ''out/joint.v2.svg'' doc] =
        PngFile (fst (splitext (save_as svg_only_form)) @ ''.png'') img" by simp
  moreover have "\<not> var_out_png svg_only_form"
    by (simp add: svg_only_form_def default_form_def)
  ultimately show ?thesis using g by blast
qed

end
